theory Spec2Isabelle
  imports Complex_Main "HOL-Library.Word"
begin

section \<open>The training and evaluation control loop of \<open>FCN8s\<close>\<close>

text \<open>
  A shallow embedding of the class \<open>FCN8s\<close> of \<^verbatim>\<open>fcn8s_tensorflow.py\<close>: the methods
  \<^verbatim>\<open>_initialize_metrics\<close>, \<^verbatim>\<open>train\<close>, \<^verbatim>\<open>_evaluate\<close>, \<^verbatim>\<open>evaluate\<close> and \<^verbatim>\<open>save\<close>.

  The object, the TensorFlow session it owns, the generators it pulls batches from, the
  saved models, the console and the summary writers are one record that every method
  takes and returns. A method returns the exception it raised, if any, together with the
  state at that moment: the object stays mutated after a raise, as in Python.

  The computation graph is a parameter: what one run of the training operation does to
  the weights, the loss it reports, and what the metric operations compute are functions
  of a record \<open>graph\<close>. Fixed by the model are the facts of TensorFlow that the source
  relies on: \<^verbatim>\<open>optimizer.minimize(loss, global_step=global_step)\<close> adds one to the
  32-bit variable \<^verbatim>\<open>global_step\<close> on every run, the metric operations touch only the
  local variables of the metrics, and \<^verbatim>\<open>metrics_reset_op\<close> sets those to their initial
  value.

  Floating-point numbers are real numbers or NaN: rounding and infinities are left out.
  Comparisons with \<^verbatim>\<open>None\<close> raise \<^verbatim>\<open>TypeError\<close>, as in Python 3. The GPU check at the head
  of \<^verbatim>\<open>train\<close>, the descriptions of the progress bars and the failures of the file system
  are not modelled.
\<close>

subsection \<open>Values and errors\<close>

datatype error =
    ValueError string
  | TypeError
  | IndexError
  | ZeroDivisionError
  | StopIteration
  | UnboundLocalError

datatype pyfloat = Fin real | NaN

fun flt_less :: "pyfloat \<Rightarrow> pyfloat \<Rightarrow> bool" where
  "flt_less (Fin a) (Fin b) = (a < b)"
| "flt_less _ _ = False"

fun flt_add :: "pyfloat \<Rightarrow> pyfloat \<Rightarrow> pyfloat" where
  "flt_add (Fin a) (Fin b) = Fin (a + b)"
| "flt_add _ _ = NaN"

text \<open>\<^verbatim>\<open>np.mean\<close> of a one-dimensional array; the mean of no element is NaN.\<close>

fun np_mean :: "pyfloat list \<Rightarrow> pyfloat" where
  "np_mean [] = NaN"
| "np_mean (x # xs) =
     (case foldl flt_add x xs of
        Fin s \<Rightarrow> Fin (s / real (Suc (length xs)))
      | NaN \<Rightarrow> NaN)"

text \<open>\<^verbatim>\<open>deque.append\<close> on a deque with \<^verbatim>\<open>maxlen\<close>: the item goes to the right end, and the
  leftmost one is dropped when the deque has grown beyond \<^verbatim>\<open>maxlen\<close>.\<close>

definition deque_append :: "nat \<Rightarrow> 'x list \<Rightarrow> 'x \<Rightarrow> 'x list" where
  "deque_append maxlen d x =
     (let d' = d @ [x] in if maxlen < length d' then tl d' else d')"

text \<open>\<^verbatim>\<open>list.index\<close>: the first position of an item, \<^verbatim>\<open>ValueError\<close> when it is absent.\<close>

fun list_index :: "'x list \<Rightarrow> 'x \<Rightarrow> error + nat" where
  "list_index [] y = Inl (ValueError ''is not in list'')"
| "list_index (x # xs) y =
     (if x = y then Inr 0
      else case list_index xs y of Inl e \<Rightarrow> Inl e | Inr i \<Rightarrow> Inr (Suc i))"

text \<open>\<^verbatim>\<open>xs[i]\<close> for a non-negative index.\<close>

definition list_get :: "'x list \<Rightarrow> nat \<Rightarrow> error + 'x" where
  "list_get xs i = (if i < length xs then Inr (xs ! i) else Inl IndexError)"

text \<open>\<^verbatim>\<open>a % b == 0\<close> on Python integers.\<close>

definition py_divides :: "int \<Rightarrow> int \<Rightarrow> error + bool" where
  "py_divides a b = (if b = 0 then Inl ZeroDivisionError else Inr (a mod b = 0))"

text \<open>\<^verbatim>\<open>a % b == 0\<close> where \<open>a\<close> is a NumPy \<^verbatim>\<open>int32\<close> scalar: the remainder by zero is zero,
  with a warning.\<close>

definition np_divides :: "32 word \<Rightarrow> int \<Rightarrow> bool" where
  "np_divides a b = (if b = 0 then True else sint a mod b = 0)"

subsection \<open>The graph, the object and its environment\<close>

datatype tf_node =
    mean_loss_value | mean_loss_update_op
  | mean_iou_value | mean_iou_update_op
  | acc_value | acc_update_op

text \<open>The graph: \<open>run_train_op\<close> is one run of \<^verbatim>\<open>train_op\<close> and \<^verbatim>\<open>loss\<close> on the weights, a
  batch, the learning rate and the keep probability; \<open>fetch_global_step\<close> is the value
  that the same run returns for \<^verbatim>\<open>global_step\<close>, given the values before and after the
  increment; \<open>run_update_ops\<close> is one run of a list of metric update operations;
  \<open>run_value_tensor\<close> reads a metric; \<open>metrics_reset\<close> is the initial value of the
  metrics' local variables.\<close>

record ('w, 'b, 'a) graph =
  run_train_op :: "'w \<Rightarrow> 'b \<Rightarrow> real \<Rightarrow> real \<Rightarrow> 'w \<times> pyfloat"
  fetch_global_step :: "32 word \<Rightarrow> 32 word \<Rightarrow> 32 word"
  run_update_ops :: "tf_node list \<Rightarrow> 'w \<Rightarrow> 'b \<Rightarrow> 'a \<Rightarrow> 'a"
  run_value_tensor :: "tf_node \<Rightarrow> 'a \<Rightarrow> pyfloat"
  metrics_reset :: "'a"

text \<open>The name that \<^verbatim>\<open>save\<close> composes, by its parts, and the tags.\<close>

record saved_model =
  sm_dir :: string
  sm_name :: "string option"
  sm_globalstep :: "32 word option option"
  sm_trainloss :: "pyfloat option"
  sm_metrics :: "(bool \<times> (string \<times> pyfloat) list) option"
  sm_timestamp :: bool
  sm_tags :: "string list"

datatype console_line =
    AbortNothingToSave
  | NewBest string
  | NoImprovement string
  | EvaluationResults "(string \<times> pyfloat) list"

datatype summary = TrainingSummary "32 word" | EvaluationSummary "32 word option"

record ('w, 'b, 'a) model =
  variables_updated :: bool
  self_eval_dataset :: "string option"
  metric_names :: "string list"
  metric_values :: "pyfloat list"
  best_metric_values :: "pyfloat list"
  metric_value_tensors :: "tf_node list"
  metric_update_ops :: "tf_node list"
  training_loss :: "pyfloat option"
  best_training_loss :: pyfloat
  g_step :: "32 word option"
  sess_weights :: 'w
  sess_global_step :: "32 word"
  sess_metric_vars :: 'a
  generators :: "nat \<Rightarrow> 'b list"
  saved_models :: "saved_model list"
  stdout :: "console_line list"
  summaries :: "summary list"
  postfix :: "(pyfloat \<times> real) list"

text \<open>\<^verbatim>\<open>next(generator)\<close> on the generator with the given identity.\<close>

definition next_batch :: "nat \<Rightarrow> ('w, 'b, 'a) model \<Rightarrow> error + ('b \<times> ('w, 'b, 'a) model)" where
  "next_batch gen s =
     (case generators s gen of
        [] \<Rightarrow> Inl StopIteration
      | b # bs \<Rightarrow> Inr (b, s\<lparr>generators := (generators s)(gen := bs)\<rparr>))"

subsection \<open>\<^verbatim>\<open>_initialize_metrics\<close>\<close>

definition initialize_metrics :: "string set \<Rightarrow> ('w, 'b, 'a) model \<Rightarrow> ('w, 'b, 'a) model" where
  "initialize_metrics metrics s =
     (let s0 = s\<lparr>metric_names := [], best_metric_values := [],
                 metric_update_ops := [], metric_value_tensors := []\<rparr>;
          s1 = (if ''loss'' \<in> metrics
                then s0\<lparr>metric_names := metric_names s0 @ [''loss''],
                        best_metric_values := best_metric_values s0 @ [Fin 99999999.9],
                        metric_update_ops := metric_update_ops s0 @ [mean_loss_update_op],
                        metric_value_tensors := metric_value_tensors s0 @ [mean_loss_value]\<rparr>
                else s0);
          s2 = (if ''mean_iou'' \<in> metrics
                then s1\<lparr>metric_names := metric_names s1 @ [''mean_iou''],
                        best_metric_values := best_metric_values s1 @ [Fin 0],
                        metric_update_ops := metric_update_ops s1 @ [mean_iou_update_op],
                        metric_value_tensors := metric_value_tensors s1 @ [mean_iou_value]\<rparr>
                else s1)
      in if ''accuracy'' \<in> metrics
         then s2\<lparr>metric_names := metric_names s2 @ [''accuracy''],
                 best_metric_values := best_metric_values s2 @ [Fin 0],
                 metric_update_ops := metric_update_ops s2 @ [acc_update_op],
                 metric_value_tensors := metric_value_tensors s2 @ [acc_value]\<rparr>
         else s2)"

subsection \<open>\<^verbatim>\<open>save\<close>\<close>

text \<open>The metric part of the model name: the names paired with the values at the same
  positions, \<^verbatim>\<open>IndexError\<close> when a value is missing.\<close>

fun name_metrics :: "string list \<Rightarrow> pyfloat list \<Rightarrow> error + (string \<times> pyfloat) list" where
  "name_metrics [] vs = Inr []"
| "name_metrics (n # ns) [] = Inl IndexError"
| "name_metrics (n # ns) (v # vs) =
     (case name_metrics ns vs of Inl e \<Rightarrow> Inl e | Inr r \<Rightarrow> Inr ((n, v) # r))"

definition save ::
  "string option \<Rightarrow> string list \<Rightarrow> string option \<Rightarrow> bool \<Rightarrow> bool \<Rightarrow> bool \<Rightarrow>
   ('w, 'b, 'a) model \<Rightarrow> error option \<times> ('w, 'b, 'a) model" where
  "save model_save_dir tags name include_global_step include_last_training_loss
        include_metrics s =
     (if \<not> variables_updated s then (None, s\<lparr>stdout := stdout s @ [AbortNothingToSave]\<rparr>)
      else if include_last_training_loss \<and> training_loss s = None then (Some TypeError, s)
      else
        case (if include_metrics then name_metrics (metric_names s) (metric_values s)
              else Inr []) of
          Inl e \<Rightarrow> (Some e, s)
        | Inr named \<Rightarrow>
            (case model_save_dir of
               None \<Rightarrow> (Some TypeError, s)
             | Some d \<Rightarrow>
                 (None,
                  s\<lparr>saved_models := saved_models s @
                      [\<lparr>sm_dir = d, sm_name = name,
                        sm_globalstep = (if include_global_step then Some (g_step s) else None),
                        sm_trainloss =
                          (if include_last_training_loss then training_loss s else None),
                        sm_metrics =
                          (if include_metrics
                           then Some (self_eval_dataset s = Some ''val'', named) else None),
                        sm_timestamp =
                          (\<not> (include_global_step \<or> include_last_training_loss \<or>
                               include_metrics) \<and> name = None),
                        sm_tags = tags\<rparr>],
                    variables_updated := False\<rparr>)))"

subsection \<open>\<^verbatim>\<open>_evaluate\<close> and \<^verbatim>\<open>evaluate\<close>\<close>

text \<open>The loop of \<^verbatim>\<open>_evaluate\<close> that accumulates the metrics in batches.\<close>

fun accumulate_metrics ::
  "('w, 'b, 'a) graph \<Rightarrow> nat \<Rightarrow> nat \<Rightarrow> ('w, 'b, 'a) model \<Rightarrow>
   error option \<times> ('w, 'b, 'a) model" where
  "accumulate_metrics g data_generator 0 s = (None, s)"
| "accumulate_metrics g data_generator (Suc n) s =
     (case next_batch data_generator s of
        Inl e \<Rightarrow> (Some e, s)
      | Inr (batch, s1) \<Rightarrow>
          accumulate_metrics g data_generator n
            (s1\<lparr>sess_metric_vars :=
                  run_update_ops g (metric_update_ops s1) (sess_weights s1) batch
                    (sess_metric_vars s1)\<rparr>))"

definition evaluate_inner ::
  "('w, 'b, 'a) graph \<Rightarrow> nat \<Rightarrow> int \<Rightarrow> ('w, 'b, 'a) model \<Rightarrow>
   error option \<times> ('w, 'b, 'a) model" where
  "evaluate_inner g data_generator num_batches s =
     (case accumulate_metrics g data_generator (nat num_batches)
             (s\<lparr>sess_metric_vars := metrics_reset g\<rparr>) of
        (Some e, s1) \<Rightarrow> (Some e, s1)
      | (None, s1) \<Rightarrow>
          (let s2 = s1\<lparr>metric_values :=
                         map (\<lambda>t. run_value_tensor g t (sess_metric_vars s1))
                           (metric_value_tensors s1)\<rparr>
           in case name_metrics (metric_names s2) (metric_values s2) of
                Inl e \<Rightarrow> (Some e, s2)
              | Inr results \<Rightarrow> (None, s2\<lparr>stdout := stdout s2 @ [EvaluationResults results]\<rparr>)))"

definition valid_metrics :: "string set" where
  "valid_metrics = {''loss'', ''mean_iou'', ''accuracy''}"

definition evaluate ::
  "('w, 'b, 'a) graph \<Rightarrow> nat \<Rightarrow> int \<Rightarrow> string set \<Rightarrow> ('w, 'b, 'a) model \<Rightarrow>
   error option \<times> ('w, 'b, 'a) model" where
  "evaluate g data_generator num_batches metrics s =
     (if \<exists>metric\<in>metrics. metric \<notin> valid_metrics
      then (Some (ValueError ''is not a valid metric''), s)
      else evaluate_inner g data_generator num_batches (initialize_metrics metrics s))"

subsection \<open>\<^verbatim>\<open>train\<close>\<close>

record train_args =
  train_generator :: nat
  epochs :: int
  steps_per_epoch :: int
  learning_rate_schedule :: "int \<Rightarrow> real"
  keep_prob :: real
  eval_dataset :: string
  eval_frequency :: int
  val_generator :: "nat option"
  val_steps :: "int option"
  metrics :: "string set"
  save_during_training :: bool
  save_dir :: "string option"
  save_best_only :: bool
  save_tags :: "string list"
  save_frequency :: int
  monitor :: string
  record_summaries :: bool
  summaries_frequency :: int
  summaries_dir :: "string option"
  summaries_name :: "string option"
  training_loss_display_averaging :: int

text \<open>The first half of a pass of the inner loop: a batch is pulled and the training
  operation runs. The result is \<^verbatim>\<open>current_loss\<close> and the object after
  \<^verbatim>\<open>self.variables_updated = True\<close>.\<close>

definition run_step ::
  "('w, 'b, 'a) graph \<Rightarrow> train_args \<Rightarrow> real \<Rightarrow> ('w, 'b, 'a) model \<Rightarrow>
   (error \<times> ('w, 'b, 'a) model) + (pyfloat \<times> ('w, 'b, 'a) model)" where
  "run_step g a learning_rate s =
     (case next_batch (train_generator a) s of
        Inl e \<Rightarrow> Inl (e, s)
      | Inr (batch, s1) \<Rightarrow>
          (case (if record_summaries a
                 then (case g_step s1 of
                         None \<Rightarrow> Inl TypeError
                       | Some gs \<Rightarrow> Inr (np_divides gs (summaries_frequency a)))
                 else Inr False) of
             Inl e \<Rightarrow> Inl (e, s1)
           | Inr with_summary \<Rightarrow>
               (let (weights', current_loss) =
                      run_train_op g (sess_weights s1) batch learning_rate (keep_prob a);
                    fetched = fetch_global_step g (sess_global_step s1) (sess_global_step s1 + 1);
                    s2 = s1\<lparr>sess_weights := weights',
                            sess_global_step := sess_global_step s1 + 1,
                            g_step := Some fetched\<rparr>;
                    s3 = (if with_summary
                          then s2\<lparr>summaries := summaries s2 @ [TrainingSummary fetched]\<rparr>
                          else s2)
                in Inr (current_loss, s3\<lparr>variables_updated := True\<rparr>))))"

text \<open>One pass of the inner loop: after the step the loss enters the window, the mean of
  the window becomes the training loss and is shown, and the learning rate for the next
  step is computed from \<^verbatim>\<open>self.g_step\<close>, which the step has set. The window and the
  learning rate are local to \<^verbatim>\<open>train\<close> and travel beside the object.\<close>

definition train_step ::
  "('w, 'b, 'a) graph \<Rightarrow> train_args \<Rightarrow> pyfloat list \<times> real \<times> ('w, 'b, 'a) model \<Rightarrow>
   error option \<times> pyfloat list \<times> real \<times> ('w, 'b, 'a) model" where
  "train_step g a st =
     (case st of (loss_history, learning_rate, s) \<Rightarrow>
      case run_step g a learning_rate s of
        Inl (e, s1) \<Rightarrow> (Some e, loss_history, learning_rate, s1)
      | Inr (current_loss, s4) \<Rightarrow>
          (let loss_history' =
                 deque_append (nat (training_loss_display_averaging a)) loss_history
                   current_loss;
               s5 = s4\<lparr>training_loss := Some (np_mean loss_history')\<rparr>;
               s6 = s5\<lparr>postfix := postfix s5 @ [(np_mean loss_history', learning_rate)]\<rparr>
           in case g_step s6 of
                None \<Rightarrow> (Some TypeError, loss_history', learning_rate, s6)
              | Some step \<Rightarrow>
                  (None, loss_history', learning_rate_schedule a (sint step), s6)))"

fun train_steps ::
  "('w, 'b, 'a) graph \<Rightarrow> train_args \<Rightarrow> nat \<Rightarrow> pyfloat list \<times> real \<times> ('w, 'b, 'a) model \<Rightarrow>
   error option \<times> pyfloat list \<times> real \<times> ('w, 'b, 'a) model" where
  "train_steps g a 0 st = (None, st)"
| "train_steps g a (Suc n) st =
     (case train_step g a st of
        (Some e, st') \<Rightarrow> (Some e, st')
      | (None, st') \<Rightarrow> train_steps g a n st')"

text \<open>The training of one epoch: a new window, then \<^verbatim>\<open>steps_per_epoch\<close> steps.\<close>

definition run_training ::
  "('w, 'b, 'a) graph \<Rightarrow> train_args \<Rightarrow> real \<Rightarrow> ('w, 'b, 'a) model \<Rightarrow>
   error option \<times> pyfloat list \<times> real \<times> ('w, 'b, 'a) model" where
  "run_training g a learning_rate s =
     (if training_loss_display_averaging a < 0
      then (Some (ValueError ''maxlen must be non-negative''), [], learning_rate, s)
      else train_steps g a (nat (steps_per_epoch a)) ([], learning_rate, s))"

text \<open>"Maybe evaluate the model after this epoch." After the checks at the head of
  \<^verbatim>\<open>train\<close> the selector is \<^verbatim>\<open>'train'\<close> or \<^verbatim>\<open>'val'\<close>, and with \<^verbatim>\<open>'val'\<close> the validation
  generator and steps are there; the other branches are written out for totality.\<close>

definition maybe_evaluate ::
  "('w, 'b, 'a) graph \<Rightarrow> train_args \<Rightarrow> int \<Rightarrow> ('w, 'b, 'a) model \<Rightarrow>
   error option \<times> ('w, 'b, 'a) model" where
  "maybe_evaluate g a epoch s =
     (if metrics a = {} then (None, s)
      else case py_divides epoch (eval_frequency a) of
        Inl e \<Rightarrow> (Some e, s)
      | Inr False \<Rightarrow> (None, s)
      | Inr True \<Rightarrow>
          (case (if eval_dataset a = ''train''
                 then Inr (train_generator a, steps_per_epoch a)
                 else if eval_dataset a = ''val''
                 then (case (val_generator a, val_steps a) of
                         (Some vg, Some vs) \<Rightarrow> Inr (vg, vs)
                       | _ \<Rightarrow> Inl TypeError)
                 else Inl UnboundLocalError) of
             Inl e \<Rightarrow> (Some e, s)
           | Inr (data_generator, num_batches) \<Rightarrow>
               (case evaluate_inner g data_generator num_batches s of
                  (Some e, s1) \<Rightarrow> (Some e, s1)
                | (None, s1) \<Rightarrow>
                    (None, if record_summaries a
                           then s1\<lparr>summaries := summaries s1 @ [EvaluationSummary (g_step s1)]\<rparr>
                           else s1))))"

text \<open>\<^verbatim>\<open>xs[i] < ys[i]\<close> and the like: both items are read, then compared.\<close>

definition compare_at ::
  "(pyfloat \<Rightarrow> pyfloat \<Rightarrow> bool) \<Rightarrow> pyfloat list \<Rightarrow> pyfloat list \<Rightarrow> nat \<Rightarrow> error + bool" where
  "compare_at cmp xs ys i =
     (case list_get xs i of
        Inl e \<Rightarrow> Inl e
      | Inr x \<Rightarrow> (case list_get ys i of Inl e \<Rightarrow> Inl e | Inr y \<Rightarrow> Inr (cmp x y)))"

text \<open>The value of \<^verbatim>\<open>save\<close> once the branch on \<^verbatim>\<open>save_best_only\<close> has run.\<close>

definition checkpoint_decision ::
  "string \<Rightarrow> bool \<Rightarrow> ('w, 'b, 'a) model \<Rightarrow> error + bool" where
  "checkpoint_decision monitor' save_best_only' s =
     (if save_best_only' then
        (case (if monitor' = ''loss'' \<and> ''loss'' \<notin> set (metric_names s)
               then (case training_loss s of
                       None \<Rightarrow> Inl TypeError
                     | Some t \<Rightarrow> Inr (flt_less t (best_training_loss s)))
               else Inr False) of
           Inl e \<Rightarrow> Inl e
         | Inr True \<Rightarrow> Inr True
         | Inr False \<Rightarrow>
             (case list_index (metric_names s) monitor' of
                Inl e \<Rightarrow> Inl e
              | Inr i \<Rightarrow>
                  if monitor' = ''loss''
                  then compare_at flt_less (metric_values s) (best_metric_values s) i
                  else if monitor' \<in> {''accuracry'', ''mean_iou''}
                  then compare_at (\<lambda>v b. flt_less b v) (metric_values s)
                         (best_metric_values s) i
                  else Inr False))
      else Inr True)"

text \<open>"Maybe save the model after this epoch."\<close>

definition maybe_save ::
  "train_args \<Rightarrow> int \<Rightarrow> ('w, 'b, 'a) model \<Rightarrow> error option \<times> ('w, 'b, 'a) model" where
  "maybe_save a epoch s =
     (if \<not> save_during_training a then (None, s)
      else case py_divides epoch (save_frequency a) of
        Inl e \<Rightarrow> (Some e, s)
      | Inr False \<Rightarrow> (None, s)
      | Inr True \<Rightarrow>
          (case checkpoint_decision (monitor a) (save_best_only a) s of
             Inl e \<Rightarrow> (Some e, s)
           | Inr do_save \<Rightarrow>
               (let s1 = (if save_best_only a
                          then s\<lparr>stdout := stdout s @
                                  [if do_save then NewBest (monitor a)
                                   else NoImprovement (monitor a)]\<rparr>
                          else s)
                in if do_save
                   then save (save_dir a) (save_tags a) None True True
                          (metric_names s1 \<noteq> []) s1
                   else (None, s1))))"

text \<open>"Update the current best metric values": the loop over the tracked metrics.\<close>

fun update_best_metric_values ::
  "nat \<Rightarrow> string list \<Rightarrow> ('w, 'b, 'a) model \<Rightarrow> error option \<times> ('w, 'b, 'a) model" where
  "update_best_metric_values i [] s = (None, s)"
| "update_best_metric_values i (metric_name # rest) s =
     (case (if metric_name = ''loss''
            then compare_at flt_less (metric_values s) (best_metric_values s) i
            else if metric_name \<in> {''accuracry'', ''mean_iou''}
            then compare_at (\<lambda>v b. flt_less b v) (metric_values s) (best_metric_values s) i
            else Inr False) of
        Inl e \<Rightarrow> (Some e, s)
      | Inr better \<Rightarrow>
          update_best_metric_values (Suc i) rest
            (if better
             then s\<lparr>best_metric_values := (best_metric_values s)[i := metric_values s ! i]\<rparr>
             else s))"

definition update_best ::
  "train_args \<Rightarrow> int \<Rightarrow> ('w, 'b, 'a) model \<Rightarrow> error option \<times> ('w, 'b, 'a) model" where
  "update_best a epoch s =
     (case training_loss s of
        None \<Rightarrow> (Some TypeError, s)
      | Some t \<Rightarrow>
          (let s1 = (if flt_less t (best_training_loss s)
                     then s\<lparr>best_training_loss := t\<rparr> else s)
           in case py_divides epoch (eval_frequency a) of
                Inl e \<Rightarrow> (Some e, s1)
              | Inr False \<Rightarrow> (None, s1)
              | Inr True \<Rightarrow> update_best_metric_values 0 (metric_names s1) s1))"

text \<open>The body of the loop over the epochs.\<close>

definition train_epoch ::
  "('w, 'b, 'a) graph \<Rightarrow> train_args \<Rightarrow> int \<Rightarrow> real \<times> ('w, 'b, 'a) model \<Rightarrow>
   error option \<times> real \<times> ('w, 'b, 'a) model" where
  "train_epoch g a epoch st =
     (case st of (learning_rate, s) \<Rightarrow>
      case run_training g a learning_rate s of
        (Some e, loss_history, lr1, s1) \<Rightarrow> (Some e, lr1, s1)
      | (None, loss_history, lr1, s1) \<Rightarrow>
          (case maybe_evaluate g a epoch s1 of
             (Some e, s2) \<Rightarrow> (Some e, lr1, s2)
           | (None, s2) \<Rightarrow>
               (case maybe_save a epoch s2 of
                  (Some e, s3) \<Rightarrow> (Some e, lr1, s3)
                | (None, s3) \<Rightarrow>
                    (case update_best a epoch s3 of (r, s4) \<Rightarrow> (r, lr1, s4)))))"

text \<open>The loop \<^verbatim>\<open>for epoch in range(1, epochs+1)\<close>, from the given epoch on, with the number
  of epochs that remain.\<close>

fun train_epochs ::
  "('w, 'b, 'a) graph \<Rightarrow> train_args \<Rightarrow> nat \<Rightarrow> int \<Rightarrow> real \<times> ('w, 'b, 'a) model \<Rightarrow>
   error option \<times> real \<times> ('w, 'b, 'a) model" where
  "train_epochs g a 0 epoch st = (None, st)"
| "train_epochs g a (Suc n) epoch st =
     (case train_epoch g a epoch st of
        (Some e, st') \<Rightarrow> (Some e, st')
      | (None, st') \<Rightarrow> train_epochs g a n (epoch + 1) st')"

text \<open>The checks at the head of \<^verbatim>\<open>train\<close>.\<close>

definition check_train_args :: "train_args \<Rightarrow> error option" where
  "check_train_args a =
     (if eval_dataset a \<notin> {''train'', ''val''} then Some (ValueError ''eval_dataset'')
      else if eval_dataset a = ''val'' \<and> (val_generator a = None \<or> val_steps a = None)
      then Some (ValueError ''val_generator and val_steps'')
      else if \<exists>metric\<in>metrics a. metric \<notin> valid_metrics
      then Some (ValueError ''is not a valid metric'')
      else if monitor a \<notin> metrics a \<and> monitor a \<noteq> ''loss''
      then Some (ValueError ''monitor'')
      else None)"

definition train ::
  "('w, 'b, 'a) graph \<Rightarrow> train_args \<Rightarrow> ('w, 'b, 'a) model \<Rightarrow>
   error option \<times> ('w, 'b, 'a) model" where
  "train g a s =
     (case check_train_args a of
        Some e \<Rightarrow> (Some e, s)
      | None \<Rightarrow>
          (let s1 = s\<lparr>self_eval_dataset := Some (eval_dataset a)\<rparr>;
               s2 = s1\<lparr>g_step := Some (sess_global_step s1)\<rparr>;
               learning_rate = learning_rate_schedule a (sint (sess_global_step s1));
               s3 = initialize_metrics (metrics a) s2
           in if record_summaries a \<and> (summaries_dir a = None \<or> summaries_name a = None)
              then (Some TypeError, s3)
              else case train_epochs g a (nat (epochs a)) 1 (learning_rate, s3) of
                     (r, lr, s4) \<Rightarrow> (r, s4)))"

subsection \<open>A new object and the default arguments\<close>

text \<open>The fields as \<^verbatim>\<open>__init__\<close> sets them when the graph is built from scratch: the step
  counter is zero and the local variables of the metrics are initialised.\<close>

definition new_model ::
  "('w, 'b, 'a) graph \<Rightarrow> 'w \<Rightarrow> (nat \<Rightarrow> 'b list) \<Rightarrow> ('w, 'b, 'a) model" where
  "new_model g weights gens =
     \<lparr>variables_updated = False, self_eval_dataset = None, metric_names = [],
      metric_values = [], best_metric_values = [], metric_value_tensors = [],
      metric_update_ops = [], training_loss = None, best_training_loss = Fin 99999999.9,
      g_step = None, sess_weights = weights, sess_global_step = 0,
      sess_metric_vars = metrics_reset g, generators = gens, saved_models = [],
      stdout = [], summaries = [], postfix = []\<rparr>"

text \<open>The defaults of the optional arguments of \<^verbatim>\<open>train\<close>.\<close>

definition default_args :: "nat \<Rightarrow> int \<Rightarrow> int \<Rightarrow> (int \<Rightarrow> real) \<Rightarrow> train_args" where
  "default_args gen n_epochs n_steps schedule =
     \<lparr>train_generator = gen, epochs = n_epochs, steps_per_epoch = n_steps,
      learning_rate_schedule = schedule, keep_prob = 0.5, eval_dataset = ''train'',
      eval_frequency = 5, val_generator = None, val_steps = None, metrics = {},
      save_during_training = False, save_dir = None, save_best_only = True,
      save_tags = [''default''], save_frequency = 5, monitor = ''loss'',
      record_summaries = True, summaries_frequency = 10, summaries_dir = None,
      summaries_name = None, training_loss_display_averaging = 3\<rparr>"

subsection \<open>A small graph for running the model\<close>

text \<open>A batch is a number. The loss of a step is the number of its batch, the weights count
  the steps, and every metric is the mean of the batches accumulated.\<close>

definition example_graph :: "(nat, real, real list) graph" where
  "example_graph =
     \<lparr>run_train_op = (\<lambda>w b lr kp. (Suc w, Fin b)),
      fetch_global_step = (\<lambda>before after. after),
      run_update_ops = (\<lambda>ops w b acc. acc @ [b]),
      run_value_tensor =
        (\<lambda>t acc. case acc of [] \<Rightarrow> NaN | _ \<Rightarrow> Fin (sum_list acc / real (length acc))),
      metrics_reset = []\<rparr>"

definition example_model :: "real list \<Rightarrow> (nat, real, real list) model" where
  "example_model batches = new_model example_graph 0 (\<lambda>gen. batches)"

definition example_args :: "int \<Rightarrow> int \<Rightarrow> train_args" where
  "example_args n_epochs n_steps =
     (default_args 0 n_epochs n_steps (\<lambda>step. 1))\<lparr>record_summaries := False\<rparr>"

subsection \<open>Calls of \<^verbatim>\<open>train\<close> used below\<close>

text \<open>One epoch of one step with \<^verbatim>\<open>metrics={'accuracy'}\<close> and \<^verbatim>\<open>monitor='accuracy'\<close>,
  evaluating and saving after every epoch, only when the monitored metric is a new best.\<close>

definition accuracy_args :: train_args where
  "accuracy_args =
     (example_args 1 1)\<lparr>metrics := {''accuracy''}, monitor := ''accuracy'',
        eval_frequency := 1, save_during_training := True, save_dir := Some ''models'',
        save_frequency := 1\<rparr>"

text \<open>One epoch of one step with \<^verbatim>\<open>metrics={'mean_iou', 'accuracy'}\<close>, evaluating after
  every epoch, not saving.\<close>

definition both_args :: train_args where
  "both_args =
     (example_args 1 1)\<lparr>metrics := {''mean_iou'', ''accuracy''}, eval_frequency := 1\<rparr>"


text \<open>One epoch of one step with \<^verbatim>\<open>metrics={'loss'}\<close>, the default evaluation frequency of
  five epochs and the default \<^verbatim>\<open>monitor='loss'\<close>, saving after every epoch when the monitored
  metric is a new best: the decision to save comes before any evaluation.\<close>

definition stale_args :: train_args where
  "stale_args =
     (example_args 1 1)\<lparr>metrics := {''loss''}, save_during_training := True,
        save_dir := Some ''models'', save_frequency := 1\<rparr>"


definition tracked_loss_model :: "(nat, real, real list) model" where
  "tracked_loss_model =
     (example_model [])\<lparr>metric_names := [''loss''], metric_values := [Fin 0.6],
        best_metric_values := [Fin 0.5], training_loss := Some (Fin 0.4),
        best_training_loss := Fin 0.5\<rparr>"

text \<open>Two epochs of three steps with \<^verbatim>\<open>metrics={'mean_iou'}\<close>, evaluating on the training
  data after every epoch, not saving.\<close>

definition evaluating_args :: train_args where
  "evaluating_args = (example_args 2 3)\<lparr>metrics := {''mean_iou''}, eval_frequency := 1\<rparr>"

text \<open>Three epochs of one step with the default \<^verbatim>\<open>metrics\<close> (none) and the default
  \<^verbatim>\<open>monitor='loss'\<close> and \<^verbatim>\<open>save_best_only=True\<close>, saving after every epoch.\<close>

definition saving_args :: train_args where
  "saving_args =
     (example_args 3 1)\<lparr>save_during_training := True, save_dir := Some ''models'',
        save_frequency := 1\<rparr>"

subsection \<open>What the steps of an epoch report\<close>

text \<open>The values of \<^verbatim>\<open>current_loss\<close> in the passes of the inner loop, in order, up to the
  pass that raises, if any. This reads the loop; it is no part of the program.\<close>

fun reported_losses ::
  "('w, 'b, 'a) graph \<Rightarrow> train_args \<Rightarrow> nat \<Rightarrow> pyfloat list \<times> real \<times> ('w, 'b, 'a) model \<Rightarrow>
   pyfloat list" where
  "reported_losses g a 0 st = []"
| "reported_losses g a (Suc n) st =
     (case run_step g a (fst (snd st)) (snd (snd st)) of
        Inl _ \<Rightarrow> []
      | Inr (current_loss, _) \<Rightarrow>
          (case train_step g a st of
             (Some e, st') \<Rightarrow> [current_loss]
           | (None, st') \<Rightarrow> current_loss # reported_losses g a n st'))"

text \<open>The last \<open>k\<close> items of a list, all of them when there are fewer.\<close>

definition last_k :: "nat \<Rightarrow> 'x list \<Rightarrow> 'x list" where
  "last_k k xs = drop (length xs - k) xs"

subsection \<open>Conditions under which \<^verbatim>\<open>train\<close> runs to its end\<close>

text \<open>A bound on the batches that one epoch pulls from one generator: the steps of the
  training, and the batches of an evaluation on the training or the validation data.\<close>

definition batches_per_epoch :: "train_args \<Rightarrow> nat" where
  "batches_per_epoch a =
     2 * nat (steps_per_epoch a) + (case val_steps a of None \<Rightarrow> 0 | Some v \<Rightarrow> nat v)"

text \<open>The generators passed to \<^verbatim>\<open>train\<close> hold batches for \<open>k\<close> more epochs.\<close>

definition enough_batches :: "nat \<Rightarrow> train_args \<Rightarrow> ('w, 'b, 'a) model \<Rightarrow> bool" where
  "enough_batches k a s \<longleftrightarrow>
     k * batches_per_epoch a \<le> length (generators s (train_generator a)) \<and>
     (case val_generator a of
        None \<Rightarrow> True
      | Some vg \<Rightarrow> k * batches_per_epoch a \<le> length (generators s vg))"

text \<open>What holds of the object between the epochs of a call of \<^verbatim>\<open>train\<close>: the step has been
  read, and the lists of the tracked metrics run in parallel.\<close>

definition tracking_consistent :: "train_args \<Rightarrow> ('w, 'b, 'a) model \<Rightarrow> bool" where
  "tracking_consistent a s \<longleftrightarrow>
     g_step s \<noteq> None \<and>
     length (metric_value_tensors s) = length (metric_names s) \<and>
     length (best_metric_values s) = length (metric_names s) \<and>
     (metrics a = {} \<longrightarrow> metric_names s = [])"

section \<open>Properties\<close>

subsection \<open>Single steps and \<^verbatim>\<open>save\<close>\<close>

lemma run_step_g_step:
  "run_step g a lr s = Inr (l, s') \<Longrightarrow> g_step s' \<noteq> None"
  by (auto simp: run_step_def next_batch_def Let_def
      split: list.splits sum.splits if_splits option.splits prod.splits)

lemma run_step_fields:
  assumes "run_step g a lr s = Inr (l, s')"
  shows "sess_global_step s' = sess_global_step s + 1"
    and "variables_updated s'"
    and "postfix s' = postfix s"
    and "training_loss s' = training_loss s"
  using assms
  by (auto simp: run_step_def next_batch_def Let_def
      split: list.splits sum.splits if_splits option.splits prod.splits)

lemma run_step_err_fields:
  assumes "run_step g a lr s = Inl (e, s')"
  shows "sess_global_step s' = sess_global_step s"
    and "postfix s' = postfix s"
  using assms
  by (auto simp: run_step_def next_batch_def Let_def
      split: list.splits sum.splits if_splits option.splits prod.splits)

text \<open>
  C7. When no variable has been updated since the last save, \<^verbatim>\<open>save\<close> prints the abort
  line and returns normally, and nothing else changes: no model is saved. A training step
  that completes leaves the flag set, and a save that goes through clears it and stores
  one model.
\<close>

theorem save_only_after_update:
  "(\<not> variables_updated s \<longrightarrow>
      save dir tags name incl_step incl_loss incl_metrics s =
        (None, s\<lparr>stdout := stdout s @ [AbortNothingToSave]\<rparr>))
   \<and> (train_step g a (loss_history, lr, s) = (None, loss_history', lr', s') \<longrightarrow>
        variables_updated s')
   \<and> (variables_updated s \<and>
        save dir tags name incl_step incl_loss incl_metrics s = (None, s'') \<longrightarrow>
        \<not> variables_updated s'' \<and>
        length (saved_models s'') = Suc (length (saved_models s)))"
proof (intro conjI impI)
  assume "\<not> variables_updated s"
  then show "save dir tags name incl_step incl_loss incl_metrics s =
      (None, s\<lparr>stdout := stdout s @ [AbortNothingToSave]\<rparr>)"
    by (simp add: save_def)
next
  assume "train_step g a (loss_history, lr, s) = (None, loss_history', lr', s')"
  then show "variables_updated s'"
    by (auto simp: train_step_def Let_def dest: run_step_fields(2)
        split: sum.splits option.splits prod.splits)
next
  assume "variables_updated s \<and>
    save dir tags name incl_step incl_loss incl_metrics s = (None, s'')"
  then show "\<not> variables_updated s''"
    by (auto simp: save_def split: if_splits sum.splits option.splits)
next
  assume "variables_updated s \<and>
    save dir tags name incl_step incl_loss incl_metrics s = (None, s'')"
  then show "length (saved_models s'') = Suc (length (saved_models s))"
    by (auto simp: save_def split: if_splits sum.splits option.splits)
qed

lemmas example_defs =
  example_model_def new_model_def example_graph_def example_args_def default_args_def

theorem save_only_after_update_witness:
  "save None [] None True True True (example_model [2]) =
     (None, (example_model [2])\<lparr>stdout := [AbortNothingToSave]\<rparr>)
   \<and> variables_updated (snd (snd (snd
        (train_step example_graph (example_args 1 1) ([], 1, example_model [2])))))
   \<and> saved_models (snd (save (Some ''models'') [''default''] None True True False
        (snd (snd (snd (train_step example_graph (example_args 1 1)
           ([], 1, example_model [2]))))))) \<noteq> []"
proof -
  let ?s = "example_model [2]"
  let ?r = "train_step example_graph (example_args 1 1) ([], 1, ?s)"
  let ?s' = "snd (snd (snd ?r))"
  let ?s'' = "snd (save (Some ''models'') [''default''] None True True False ?s')"
  have h1: "\<not> variables_updated ?s"
    by (simp add: example_defs)
  have h2: "?r = (None, [Fin 2], 1, ?s')"
    by (simp add: example_defs train_step_def run_step_def next_batch_def deque_append_def
        Let_def)
  have h3: "variables_updated ?s'"
    using save_only_after_update [of ?s None "[]" None True True True example_graph
        "example_args 1 1" "[]" 1 "[Fin 2]" 1 ?s' ?s] h2
    by blast
  have h4: "save (Some ''models'') [''default''] None True True False ?s' = (None, ?s'')"
    by (simp add: example_defs train_step_def run_step_def next_batch_def deque_append_def
        Let_def save_def)
  show ?thesis
    using save_only_after_update [of ?s None "[]" None True True True example_graph
        "example_args 1 1" "[]" 1 "[Fin 2]" 1 ?s' ?s] h1 h2
      save_only_after_update [of ?s' "Some ''models''" "[''default'']" None True True False
        example_graph "example_args 1 1" "[]" 1 "[Fin 2]" 1 ?s' ?s''] h3 h4
    by (auto simp: example_defs)
qed

subsection \<open>The evaluation runner\<close>

lemma accumulate_metrics_enough:
  "n \<le> length (generators s gen) \<Longrightarrow>
   accumulate_metrics g gen n s =
     (None, s\<lparr>sess_metric_vars :=
                 foldl (\<lambda>acc b. run_update_ops g (metric_update_ops s) (sess_weights s) b acc)
                   (sess_metric_vars s) (take n (generators s gen)),
               generators := (generators s)(gen := drop n (generators s gen))\<rparr>)"
proof (induction n arbitrary: s)
  case 0
  then show ?case by simp
next
  case (Suc n)
  then obtain b bs where bs: "generators s gen = b # bs"
    by (cases "generators s gen") auto
  with Suc.prems have "n \<le> length bs" by simp
  then show ?case
    using bs by (simp add: next_batch_def Suc.IH cong: if_cong)
qed

lemma accumulate_metrics_short:
  "length (generators s gen) < n \<Longrightarrow> fst (accumulate_metrics g gen n s) = Some StopIteration"
proof (induction n arbitrary: s)
  case 0
  then show ?case by simp
next
  case (Suc n)
  show ?case
  proof (cases "generators s gen")
    case Nil
    then show ?thesis by (simp add: next_batch_def)
  next
    case (Cons b bs)
    with Suc.prems have "length bs < n" by simp
    then show ?thesis
      using Cons by (simp add: next_batch_def Suc.IH)
  qed
qed

lemma accumulate_metrics_frame:
  "\<exists>mv gs. snd (accumulate_metrics g gen n s) = s\<lparr>sess_metric_vars := mv, generators := gs\<rparr>"
proof (induction n arbitrary: s)
  case 0
  show ?case
    by (simp, rule exI [of _ "sess_metric_vars s"], rule exI [of _ "generators s"], simp)
next
  case (Suc n)
  show ?case
  proof (cases "generators s gen")
    case Nil
    show ?thesis using Nil
      by (simp add: next_batch_def, intro exI [of _ "sess_metric_vars s"] exI [of _ "generators s"], simp)
  next
    case (Cons b bs)
    let ?s1 = "s\<lparr>generators := (generators s)(gen := bs),
       sess_metric_vars := run_update_ops g (metric_update_ops s) (sess_weights s) b (sess_metric_vars s)\<rparr>"
    from Suc.IH [of ?s1] obtain mv gs where
      "snd (accumulate_metrics g gen n ?s1) = ?s1\<lparr>sess_metric_vars := mv, generators := gs\<rparr>"
      by blast
    then have "snd (accumulate_metrics g gen (Suc n) s) = s\<lparr>sess_metric_vars := mv, generators := gs\<rparr>"
      using Cons by (simp add: next_batch_def)
    then show ?thesis by blast
  qed
qed

lemma evaluate_inner_frame:
  "\<exists>mv gs vals out. snd (evaluate_inner g gen n s) =
     s\<lparr>sess_metric_vars := mv, generators := gs, metric_values := vals, stdout := out\<rparr>"
proof -
  let ?s0 = "s\<lparr>sess_metric_vars := metrics_reset g\<rparr>"
  obtain mv gs where acc: "snd (accumulate_metrics g gen (nat n) ?s0) = ?s0\<lparr>sess_metric_vars := mv, generators := gs\<rparr>"
    using accumulate_metrics_frame [of g gen "nat n" ?s0] by blast
  obtain r s1 where r: "accumulate_metrics g gen (nat n) ?s0 = (r, s1)" by (cases "accumulate_metrics g gen (nat n) ?s0")
  with acc have s1: "s1 = s\<lparr>sess_metric_vars := mv, generators := gs\<rparr>" by simp
  have id: "s1 = s\<lparr>sess_metric_vars := mv, generators := gs, metric_values := metric_values s, stdout := stdout s\<rparr>"
    by (simp add: s1)
  show ?thesis
  proof (cases r)
    case (Some e)
    then have "snd (evaluate_inner g gen n s) = s1" using r by (simp add: evaluate_inner_def)
    then show ?thesis using id by metis
  next
    case None
    let ?vals = "map (\<lambda>t. run_value_tensor g t (sess_metric_vars s1)) (metric_value_tensors s1)"
    show ?thesis
    proof (cases "name_metrics (metric_names s1) ?vals")
      case (Inl e)
      then have "snd (evaluate_inner g gen n s) =
         s\<lparr>sess_metric_vars := mv, generators := gs, metric_values := ?vals, stdout := stdout s\<rparr>"
        using r None by (simp add: evaluate_inner_def Let_def s1)
      then show ?thesis by blast
    next
      case (Inr res)
      then have "snd (evaluate_inner g gen n s) =
         s\<lparr>sess_metric_vars := mv, generators := gs, metric_values := ?vals, stdout := stdout s @ [EvaluationResults res]\<rparr>"
        using r None by (simp add: evaluate_inner_def Let_def s1)
      then show ?thesis by blast
    qed
  qed
qed

lemma name_metrics_ok:
  "length ns \<le> length vs \<Longrightarrow> \<exists>r. name_metrics ns vs = Inr r"
  by (induction ns vs rule: name_metrics.induct) auto


lemma evaluate_inner_enough:
  fixes g :: "('w, 'b, 'a) graph" and s :: "('w, 'b, 'a) model"
  assumes "nat n \<le> length (generators s gen)"
  defines "vars \<equiv> foldl (\<lambda>acc b. run_update_ops g (metric_update_ops s) (sess_weights s) b acc)
              (metrics_reset g) (take (nat n) (generators s gen))"
  shows "sess_metric_vars (snd (evaluate_inner g gen n s)) = vars"
    and "generators (snd (evaluate_inner g gen n s)) =
           (generators s)(gen := drop (nat n) (generators s gen))"
    and "metric_values (snd (evaluate_inner g gen n s)) =
           map (\<lambda>t. run_value_tensor g t vars) (metric_value_tensors s)"
    and "length (metric_names s) \<le> length (metric_value_tensors s) \<Longrightarrow>
           fst (evaluate_inner g gen n s) = None"
proof -
  let ?s0 = "s\<lparr>sess_metric_vars := metrics_reset g\<rparr>"
  have acc: "accumulate_metrics g gen (nat n) ?s0 =
      (None, ?s0\<lparr>sess_metric_vars := vars,
                 generators := (generators s)(gen := drop (nat n) (generators s gen))\<rparr>)"
    using accumulate_metrics_enough [of "nat n" ?s0 gen g] assms(1)
    by (simp add: vars_def)
  show "sess_metric_vars (snd (evaluate_inner g gen n s)) = vars"
    by (simp add: evaluate_inner_def acc Let_def split: sum.splits)
  show "generators (snd (evaluate_inner g gen n s)) =
           (generators s)(gen := drop (nat n) (generators s gen))"
    by (simp add: evaluate_inner_def acc Let_def split: sum.splits)
  show "metric_values (snd (evaluate_inner g gen n s)) =
           map (\<lambda>t. run_value_tensor g t vars) (metric_value_tensors s)"
    by (simp add: evaluate_inner_def acc Let_def split: sum.splits)
  show "fst (evaluate_inner g gen n s) = None"
    if "length (metric_names s) \<le> length (metric_value_tensors s)"
    using name_metrics_ok [of "metric_names s"
        "map (\<lambda>t. run_value_tensor g t vars) (metric_value_tensors s)"] that
    by (auto simp: evaluate_inner_def acc Let_def split: sum.splits)
qed

lemma evaluate_inner_short:
  "length (generators s gen) < nat n \<Longrightarrow> fst (evaluate_inner g gen n s) = Some StopIteration"
  using accumulate_metrics_short [of "s\<lparr>sess_metric_vars := metrics_reset g\<rparr>" gen "nat n" g]
  by (auto simp: evaluate_inner_def split: prod.splits option.splits)

text \<open>
  C9. \<^verbatim>\<open>_evaluate\<close> leaves the training state alone whatever its outcome: the step
  counter of the object and of the session, the weights, the training loss and its best
  value, and the updated flag are as before. The learning rate is a local variable of
  \<^verbatim>\<open>train\<close>, out of reach of \<^verbatim>\<open>_evaluate\<close>. When the generator holds at least
  \<^verbatim>\<open>num_batches\<close> batches, the metric variables at the end are the reset value with
  the first \<^verbatim>\<open>num_batches\<close> batches folded in, in order, the generator has lost exactly
  those batches, and the metric values are read from the variables at the end; the call
  returns normally when every tracked name has a value tensor. With fewer batches the
  call ends in \<^verbatim>\<open>StopIteration\<close>.
\<close>

theorem evaluation_runner:
  "(g_step (snd (evaluate_inner g gen n s)) = g_step s
    \<and> sess_global_step (snd (evaluate_inner g gen n s)) = sess_global_step s
    \<and> sess_weights (snd (evaluate_inner g gen n s)) = sess_weights s
    \<and> training_loss (snd (evaluate_inner g gen n s)) = training_loss s
    \<and> best_training_loss (snd (evaluate_inner g gen n s)) = best_training_loss s
    \<and> variables_updated (snd (evaluate_inner g gen n s)) = variables_updated s)
   \<and> (nat n \<le> length (generators s gen) \<longrightarrow>
        sess_metric_vars (snd (evaluate_inner g gen n s)) =
          foldl (\<lambda>acc b. run_update_ops g (metric_update_ops s) (sess_weights s) b acc)
            (metrics_reset g) (take (nat n) (generators s gen))
        \<and> generators (snd (evaluate_inner g gen n s)) =
            (generators s)(gen := drop (nat n) (generators s gen))
        \<and> metric_values (snd (evaluate_inner g gen n s)) =
            map (\<lambda>t. run_value_tensor g t (sess_metric_vars (snd (evaluate_inner g gen n s))))
              (metric_value_tensors s)
        \<and> (length (metric_names s) \<le> length (metric_value_tensors s) \<longrightarrow>
             fst (evaluate_inner g gen n s) = None))
   \<and> (length (generators s gen) < nat n \<longrightarrow>
        fst (evaluate_inner g gen n s) = Some StopIteration)"
proof -
  obtain mv gs vals out where
    "snd (evaluate_inner g gen n s) =
       s\<lparr>sess_metric_vars := mv, generators := gs, metric_values := vals, stdout := out\<rparr>"
    using evaluate_inner_frame [of g gen n s] by blast
  then have frame: "g_step (snd (evaluate_inner g gen n s)) = g_step s
    \<and> sess_global_step (snd (evaluate_inner g gen n s)) = sess_global_step s
    \<and> sess_weights (snd (evaluate_inner g gen n s)) = sess_weights s
    \<and> training_loss (snd (evaluate_inner g gen n s)) = training_loss s
    \<and> best_training_loss (snd (evaluate_inner g gen n s)) = best_training_loss s
    \<and> variables_updated (snd (evaluate_inner g gen n s)) = variables_updated s"
    by simp
  show ?thesis
    using frame evaluate_inner_enough [of n s gen g] evaluate_inner_short [of s gen n g]
    by simp
qed

theorem evaluation_runner_witness:
  "fst (evaluate_inner example_graph 0 2
          (initialize_metrics {''accuracy''} (example_model [1, 2, 3]))) = None
   \<and> sess_metric_vars (snd (evaluate_inner example_graph 0 2
          (initialize_metrics {''accuracy''} (example_model [1, 2, 3])))) = [1, 2]
   \<and> generators (snd (evaluate_inner example_graph 0 2
          (initialize_metrics {''accuracy''} (example_model [1, 2, 3])))) 0 = [3]
   \<and> metric_values (snd (evaluate_inner example_graph 0 2
          (initialize_metrics {''accuracy''} (example_model [1, 2, 3])))) = [Fin (3 / 2)]
   \<and> fst (evaluate_inner example_graph 0 4
          (initialize_metrics {''accuracy''} (example_model [1, 2, 3]))) = Some StopIteration"
proof -
  let ?s = "initialize_metrics {''accuracy''} (example_model [1, 2, 3])"
  have gen: "generators ?s 0 = [1, 2, 3]"
    and ops: "metric_update_ops ?s = [acc_update_op]"
    and tensors: "metric_value_tensors ?s = [acc_value]"
    and names: "metric_names ?s = [''accuracy'']"
    by (simp_all add: initialize_metrics_def example_defs)
  have two: "nat 2 \<le> length (generators ?s 0)" and four: "length (generators ?s 0) < nat 4"
    by (simp_all add: gen)
  have len: "length (metric_names ?s) \<le> length (metric_value_tensors ?s)"
    by (simp add: names tensors)
  have take2: "take (nat 2) [1, 2, 3 :: real] = [1, 2]" and drop2: "drop (nat 2) [1, 2, 3 :: real] = [3]"
    by (simp_all add: numeral_2_eq_2)
  show ?thesis
    using evaluation_runner [of example_graph 0 2 ?s] evaluation_runner [of example_graph 0 4 ?s]
      two four len
    by (simp add: gen ops tensors take2 drop2) (simp add: example_graph_def)
qed

subsection \<open>Configuration errors\<close>

text \<open>
  C5. When \<^verbatim>\<open>eval_dataset\<close> is neither \<^verbatim>\<open>'train'\<close> nor \<^verbatim>\<open>'val'\<close>, or it is \<^verbatim>\<open>'val'\<close>
  and the validation generator or the validation steps are missing, or a requested metric
  has an unknown name, or the monitored metric is neither \<^verbatim>\<open>'loss'\<close> nor requested,
  \<^verbatim>\<open>train\<close> raises \<^verbatim>\<open>ValueError\<close> and the object, the session and the generators are
  untouched: no step has run and no batch has been pulled. \<^verbatim>\<open>evaluate\<close> does the same for
  an unknown metric name.
\<close>

theorem configuration_errors_first:
  "((eval_dataset a \<notin> {''train'', ''val''}
     \<or> (eval_dataset a = ''val'' \<and> (val_generator a = None \<or> val_steps a = None))
     \<or> (\<exists>metric\<in>metrics a. metric \<notin> {''loss'', ''mean_iou'', ''accuracy''})
     \<or> (monitor a \<notin> metrics a \<and> monitor a \<noteq> ''loss''))
    \<longrightarrow> (\<exists>msg. train g a s = (Some (ValueError msg), s)))
   \<and> ((\<exists>metric\<in>ms. metric \<notin> {''loss'', ''mean_iou'', ''accuracy''})
    \<longrightarrow> (\<exists>msg. evaluate g gen n ms s = (Some (ValueError msg), s)))"
proof (intro conjI impI)
  define c1 where "c1 \<longleftrightarrow> eval_dataset a \<notin> {''train'', ''val''}"
  define c2 where
    "c2 \<longleftrightarrow> eval_dataset a = ''val'' \<and> (val_generator a = None \<or> val_steps a = None)"
  define c3 where "c3 \<longleftrightarrow> (\<exists>metric\<in>metrics a. metric \<notin> valid_metrics)"
  define c4 where "c4 \<longleftrightarrow> monitor a \<notin> metrics a \<and> monitor a \<noteq> ''loss''"
  assume "eval_dataset a \<notin> {''train'', ''val''}
     \<or> (eval_dataset a = ''val'' \<and> (val_generator a = None \<or> val_steps a = None))
     \<or> (\<exists>metric\<in>metrics a. metric \<notin> {''loss'', ''mean_iou'', ''accuracy''})
     \<or> (monitor a \<notin> metrics a \<and> monitor a \<noteq> ''loss'')"
  then have bad: "c1 \<or> c2 \<or> c3 \<or> c4"
    unfolding c1_def c2_def c3_def c4_def valid_metrics_def .
  have "check_train_args a =
     (if c1 then Some (ValueError ''eval_dataset'')
      else if c2 then Some (ValueError ''val_generator and val_steps'')
      else if c3 then Some (ValueError ''is not a valid metric'')
      else if c4 then Some (ValueError ''monitor'')
      else None)"
    unfolding c1_def c2_def c3_def c4_def check_train_args_def ..
  with bad have "\<exists>msg. check_train_args a = Some (ValueError msg)"
    by (cases c1; cases c2; cases c3; cases c4) simp_all
  then obtain msg where "check_train_args a = Some (ValueError msg)" ..
  then have "train g a s = (Some (ValueError msg), s)"
    by (simp add: train_def)
  then show "\<exists>msg. train g a s = (Some (ValueError msg), s)" ..
next
  assume "\<exists>metric\<in>ms. metric \<notin> {''loss'', ''mean_iou'', ''accuracy''}"
  then have "\<exists>metric\<in>ms. metric \<notin> valid_metrics"
    unfolding valid_metrics_def .
  then have "evaluate g gen n ms s = (Some (ValueError ''is not a valid metric''), s)"
    unfolding evaluate_def by (rule if_P)
  then show "\<exists>msg. evaluate g gen n ms s = (Some (ValueError msg), s)" ..
qed



theorem configuration_errors_first_witness:
  "(\<exists>msg. train example_graph ((example_args 1 1)\<lparr>metrics := {''foo''}\<rparr>) (example_model [1]) =
       (Some (ValueError msg), example_model [1]))
   \<and> (\<exists>msg. train example_graph ((example_args 1 1)\<lparr>eval_dataset := ''val''\<rparr>)
         (example_model [1]) = (Some (ValueError msg), example_model [1]))
   \<and> (\<exists>msg. train example_graph ((example_args 1 1)\<lparr>eval_dataset := ''test''\<rparr>)
         (example_model [1]) = (Some (ValueError msg), example_model [1]))
   \<and> (\<exists>msg. train example_graph ((example_args 1 1)\<lparr>monitor := ''mean_iou''\<rparr>)
         (example_model [1]) = (Some (ValueError msg), example_model [1]))
   \<and> (\<exists>msg. evaluate example_graph 0 1 {''foo''} (example_model [1]) =
       (Some (ValueError msg), example_model [1]))"
proof -
  let ?s = "example_model [1]"
  have foo: "\<exists>metric\<in>{''foo''}. metric \<notin> {''loss'', ''mean_iou'', ''accuracy''}"
    by simp
  have 1: "\<exists>metric\<in>metrics ((example_args 1 1)\<lparr>metrics := {''foo''}\<rparr>).
      metric \<notin> {''loss'', ''mean_iou'', ''accuracy''}"
    using foo by simp
  have 2: "eval_dataset ((example_args 1 1)\<lparr>eval_dataset := ''val''\<rparr>) = ''val'' \<and>
      (val_generator ((example_args 1 1)\<lparr>eval_dataset := ''val''\<rparr>) = None \<or>
       val_steps ((example_args 1 1)\<lparr>eval_dataset := ''val''\<rparr>) = None)"
    by (simp add: example_args_def default_args_def)
  have 3: "eval_dataset ((example_args 1 1)\<lparr>eval_dataset := ''test''\<rparr>) \<notin> {''train'', ''val''}"
    by simp
  have 4: "monitor ((example_args 1 1)\<lparr>monitor := ''mean_iou''\<rparr>)
        \<notin> metrics ((example_args 1 1)\<lparr>monitor := ''mean_iou''\<rparr>) \<and>
      monitor ((example_args 1 1)\<lparr>monitor := ''mean_iou''\<rparr>) \<noteq> ''loss''"
    by (simp add: example_args_def default_args_def)
  note thm1 = configuration_errors_first [of "(example_args 1 1)\<lparr>metrics := {''foo''}\<rparr>"
        example_graph ?s "{''foo''}" 0 1]
  note thm2 = configuration_errors_first [of "(example_args 1 1)\<lparr>eval_dataset := ''val''\<rparr>"
        example_graph ?s, THEN conjunct1]
  note thm3 = configuration_errors_first [of "(example_args 1 1)\<lparr>eval_dataset := ''test''\<rparr>"
        example_graph ?s, THEN conjunct1]
  note thm4 = configuration_errors_first [of "(example_args 1 1)\<lparr>monitor := ''mean_iou''\<rparr>"
        example_graph ?s, THEN conjunct1]
  have a: "\<exists>msg. train example_graph ((example_args 1 1)\<lparr>metrics := {''foo''}\<rparr>) ?s =
       (Some (ValueError msg), ?s)"
    by (rule thm1 [THEN conjunct1, THEN mp]) (rule disjI2, rule disjI2, rule disjI1, rule 1)
  have e: "\<exists>msg. evaluate example_graph 0 1 {''foo''} ?s = (Some (ValueError msg), ?s)"
    by (rule thm1 [THEN conjunct2, THEN mp]) (rule foo)
  have b: "\<exists>msg. train example_graph ((example_args 1 1)\<lparr>eval_dataset := ''val''\<rparr>) ?s =
       (Some (ValueError msg), ?s)"
    by (rule thm2 [THEN mp]) (rule disjI2, rule disjI1, rule 2)
  have c: "\<exists>msg. train example_graph ((example_args 1 1)\<lparr>eval_dataset := ''test''\<rparr>) ?s =
       (Some (ValueError msg), ?s)"
    by (rule thm3 [THEN mp]) (rule disjI1, rule 3)
  have d: "\<exists>msg. train example_graph ((example_args 1 1)\<lparr>monitor := ''mean_iou''\<rparr>) ?s =
       (Some (ValueError msg), ?s)"
    by (rule thm4 [THEN mp]) (intro disjI2, rule 4)
  from a b c d e show ?thesis by (intro conjI)
qed

subsection \<open>The checkpoint decision and the best values\<close>

lemmas train_defs =
  train_def check_train_args_def valid_metrics_def initialize_metrics_def train_epoch_def
  run_training_def train_step_def run_step_def next_batch_def deque_append_def
  maybe_evaluate_def evaluate_inner_def maybe_save_def checkpoint_decision_def compare_at_def
  list_get_def save_def update_best_def py_divides_def np_divides_def Let_def

text \<open>
  C1. The claim fails for \<^verbatim>\<open>monitor='accuracy'\<close>: the branch of the decision for the
  metrics where higher is better tests the name against \<^verbatim>\<open>['accuracry', 'mean_iou']\<close>.
  In the run below the evaluated accuracy is 0.85 and its best value is 0, the console
  shows "No improvement" and no model is saved.
\<close>

theorem accuracy_improvement_not_saved:
  "fst (train example_graph accuracy_args (example_model [0.85, 0.85])) = None
   \<and> metric_names (snd (train example_graph accuracy_args (example_model [0.85, 0.85]))) =
        [''accuracy'']
   \<and> metric_values (snd (train example_graph accuracy_args (example_model [0.85, 0.85]))) =
        [Fin 0.85]
   \<and> stdout (snd (train example_graph accuracy_args (example_model [0.85, 0.85]))) =
        [EvaluationResults [(''accuracy'', Fin 0.85)], NoImprovement ''accuracy'']
   \<and> saved_models (snd (train example_graph accuracy_args (example_model [0.85, 0.85]))) = []"
  by (simp add: train_defs accuracy_args_def example_defs)

text \<open>
  C4. The claim fails for the accuracy: the loop that updates the best values tests the
  name against \<^verbatim>\<open>['accuracry', 'mean_iou']\<close> as well. In the run below both metrics
  are evaluated to 0.85 after the epoch; the best mean IoU becomes 0.85 and the best
  accuracy stays 0.
\<close>

theorem accuracy_best_not_updated:
  "fst (train example_graph both_args (example_model [0.5, 0.85])) = None
   \<and> metric_names (snd (train example_graph both_args (example_model [0.5, 0.85]))) =
        [''mean_iou'', ''accuracy'']
   \<and> metric_values (snd (train example_graph both_args (example_model [0.5, 0.85]))) =
        [Fin 0.85, Fin 0.85]
   \<and> best_metric_values (snd (train example_graph both_args (example_model [0.5, 0.85]))) =
        [Fin 0.85, Fin 0]"
  by (simp add: train_defs both_args_def example_defs)





subsection \<open>The metric lists\<close>

text \<open>
  What \<^verbatim>\<open>_initialize_metrics\<close> does: it sets the names, the best values, the update
  operations and the value tensors from the requested metrics alone, in the order loss,
  mean IoU, accuracy, and it leaves \<^verbatim>\<open>self.metric_values\<close> as it is. \<^verbatim>\<open>evaluate\<close> with
  valid metric names is \<^verbatim>\<open>_evaluate\<close> on the object so initialised, and \<^verbatim>\<open>train\<close> with
  valid arguments runs its epochs on the object so initialised.
\<close>

lemma metric_lists_reinitialized:
  "metric_names (initialize_metrics ms s) =
      filter (\<lambda>name. name \<in> ms) [''loss'', ''mean_iou'', ''accuracy'']
   \<and> best_metric_values (initialize_metrics ms s) =
      map (\<lambda>name. if name = ''loss'' then Fin 99999999.9 else Fin 0)
        (metric_names (initialize_metrics ms s))
   \<and> metric_update_ops (initialize_metrics ms s) =
      map (\<lambda>name. if name = ''loss'' then mean_loss_update_op
                   else if name = ''mean_iou'' then mean_iou_update_op else acc_update_op)
        (metric_names (initialize_metrics ms s))
   \<and> metric_value_tensors (initialize_metrics ms s) =
      map (\<lambda>name. if name = ''loss'' then mean_loss_value
                   else if name = ''mean_iou'' then mean_iou_value else acc_value)
        (metric_names (initialize_metrics ms s))
   \<and> metric_values (initialize_metrics ms s) = metric_values s
   \<and> ((\<forall>metric\<in>ms. metric \<in> valid_metrics) \<longrightarrow>
        evaluate g gen n ms s = evaluate_inner g gen n (initialize_metrics ms s))
   \<and> (check_train_args a = None \<and>
        \<not> (record_summaries a \<and> (summaries_dir a = None \<or> summaries_name a = None)) \<longrightarrow>
        train g a s =
          (case train_epochs g a (nat (epochs a)) 1
                  (learning_rate_schedule a (sint (sess_global_step s)),
                   initialize_metrics (metrics a)
                     (s\<lparr>self_eval_dataset := Some (eval_dataset a),
                        g_step := Some (sess_global_step s)\<rparr>)) of
             (r, lr, s') \<Rightarrow> (r, s')))"
proof (intro conjI impI)
  show "metric_names (initialize_metrics ms s) =
      filter (\<lambda>name. name \<in> ms) [''loss'', ''mean_iou'', ''accuracy'']"
    by (simp add: initialize_metrics_def Let_def)
  show "best_metric_values (initialize_metrics ms s) =
      map (\<lambda>name. if name = ''loss'' then Fin 99999999.9 else Fin 0)
        (metric_names (initialize_metrics ms s))"
    by (simp add: initialize_metrics_def Let_def)
  show "metric_update_ops (initialize_metrics ms s) =
      map (\<lambda>name. if name = ''loss'' then mean_loss_update_op
                   else if name = ''mean_iou'' then mean_iou_update_op else acc_update_op)
        (metric_names (initialize_metrics ms s))"
    by (simp add: initialize_metrics_def Let_def)
  show "metric_value_tensors (initialize_metrics ms s) =
      map (\<lambda>name. if name = ''loss'' then mean_loss_value
                   else if name = ''mean_iou'' then mean_iou_value else acc_value)
        (metric_names (initialize_metrics ms s))"
    by (simp add: initialize_metrics_def Let_def)
  show "metric_values (initialize_metrics ms s) = metric_values s"
    by (simp add: initialize_metrics_def Let_def)
  show "evaluate g gen n ms s = evaluate_inner g gen n (initialize_metrics ms s)"
    if "\<forall>metric\<in>ms. metric \<in> valid_metrics"
    using that by (simp add: evaluate_def)
  show "train g a s =
          (case train_epochs g a (nat (epochs a)) 1
                  (learning_rate_schedule a (sint (sess_global_step s)),
                   initialize_metrics (metrics a)
                     (s\<lparr>self_eval_dataset := Some (eval_dataset a),
                        g_step := Some (sess_global_step s)\<rparr>)) of
             (r, lr, s') \<Rightarrow> (r, s'))"
    if "check_train_args a = None \<and>
        \<not> (record_summaries a \<and> (summaries_dir a = None \<or> summaries_name a = None))"
    using that by (auto simp: train_def Let_def)
qed

lemma metric_lists_reinitialized_example:
  "metric_names (initialize_metrics {''loss'', ''accuracy''} tracked_loss_model) =
      [''loss'', ''accuracy'']
   \<and> best_metric_values (initialize_metrics {''loss'', ''accuracy''} tracked_loss_model) =
      [Fin 99999999.9, Fin 0]
   \<and> metric_values (initialize_metrics {''loss'', ''accuracy''} tracked_loss_model) =
      [Fin 0.6]
   \<and> evaluate example_graph 0 1 {''loss'', ''accuracy''} tracked_loss_model =
      evaluate_inner example_graph 0 1
        (initialize_metrics {''loss'', ''accuracy''} tracked_loss_model)
   \<and> train example_graph stale_args tracked_loss_model =
      (case train_epochs example_graph stale_args (nat (epochs stale_args)) 1
              (learning_rate_schedule stale_args (sint (sess_global_step tracked_loss_model)),
               initialize_metrics (metrics stale_args)
                 (tracked_loss_model\<lparr>self_eval_dataset := Some (eval_dataset stale_args),
                    g_step := Some (sess_global_step tracked_loss_model)\<rparr>)) of
         (r, lr, s') \<Rightarrow> (r, s'))"
proof -
  have valid: "\<forall>metric\<in>{''loss'', ''accuracy''}. metric \<in> valid_metrics"
    by (simp add: valid_metrics_def)
  have args: "check_train_args stale_args = None \<and>
      \<not> (record_summaries stale_args \<and>
         (summaries_dir stale_args = None \<or> summaries_name stale_args = None))"
    by (simp add: check_train_args_def valid_metrics_def stale_args_def example_defs)
  have old: "metric_values tracked_loss_model = [Fin 0.6]"
    by (simp add: tracked_loss_model_def)
  show ?thesis
    using metric_lists_reinitialized [of "{''loss'', ''accuracy''}" tracked_loss_model
        example_graph 0 1 stale_args] valid args old
    by simp
qed

text \<open>
  C3. The claim fails for the current metric values: \<^verbatim>\<open>_initialize_metrics\<close> resets four of
  the five lists and leaves \<^verbatim>\<open>self.metric_values\<close> out. Below, \<^verbatim>\<open>evaluate\<close> leaves the
  accuracy 0.7 there. A following \<^verbatim>\<open>train\<close> that tracks and monitors the loss decides to
  save after its first epoch, before any evaluation: it compares the old accuracy with the
  new best loss, names the saved model by it as a loss, and returns with the value still
  in place.
\<close>

theorem metric_values_survive:
  "fst (evaluate example_graph 0 1 {''accuracy''} (example_model [0.7, 1])) = None
   \<and> metric_values (snd (evaluate example_graph 0 1 {''accuracy''} (example_model [0.7, 1]))) =
        [Fin 0.7]
   \<and> fst (train example_graph stale_args
        (snd (evaluate example_graph 0 1 {''accuracy''} (example_model [0.7, 1])))) = None
   \<and> metric_names (snd (train example_graph stale_args
        (snd (evaluate example_graph 0 1 {''accuracy''} (example_model [0.7, 1]))))) =
        [''loss'']
   \<and> metric_values (snd (train example_graph stale_args
        (snd (evaluate example_graph 0 1 {''accuracy''} (example_model [0.7, 1]))))) =
        [Fin 0.7]
   \<and> map sm_metrics (saved_models (snd (train example_graph stale_args
        (snd (evaluate example_graph 0 1 {''accuracy''} (example_model [0.7, 1])))))) =
        [Some (False, [(''loss'', Fin 0.7)])]"
  by (simp add: train_defs evaluate_def stale_args_def example_defs)

subsection \<open>The window of losses\<close>

lemma deque_append_last_k:
  "deque_append k (last_k k hs) x = last_k k (hs @ [x])"
proof (cases "length hs < k")
  case True
  then show ?thesis by (simp add: deque_append_def last_k_def)
next
  case False
  then have k: "k \<le> length hs" by simp
  then have len: "Suc (length hs) - k = Suc (length hs - k)" by simp
  show ?thesis
  proof (cases "k = 0")
    case True
    then show ?thesis by (simp add: deque_append_def last_k_def)
  next
    case False
    with k have "length hs - k < length hs" by simp
    then have ne: "drop (length hs - k) hs \<noteq> []" by simp
    have "tl (drop (length hs - k) hs @ [x]) = drop (Suc (length hs - k)) hs @ [x]"
      using ne by (simp add: drop_Suc tl_drop)
    then show ?thesis using k len False by (simp add: deque_append_def last_k_def)
  qed
qed

lemma np_mean_single: "np_mean [x] = x"
  by (cases x) simp_all

lemma foldl_flt_add_Fin: "foldl flt_add (Fin r) (map Fin rs) = Fin (r + sum_list rs)"
  by (induction rs arbitrary: r) (simp_all add: add.assoc)

lemma np_mean_Fin:
  "rs \<noteq> [] \<Longrightarrow> np_mean (map Fin rs) = Fin (sum_list rs / real (length rs))"
  by (cases rs) (simp_all add: foldl_flt_add_Fin)

lemma train_step_cases:
  "(\<exists>e s1. run_step g a lr s = Inl (e, s1) \<and> train_step g a (lh, lr, s) = (Some e, lh, lr, s1))
   \<or> (\<exists>l s4. run_step g a lr s = Inr (l, s4) \<and>
        train_step g a (lh, lr, s) =
          (None, deque_append (nat (training_loss_display_averaging a)) lh l,
           learning_rate_schedule a (sint (the (g_step s4))),
           s4\<lparr>training_loss :=
                 Some (np_mean (deque_append (nat (training_loss_display_averaging a)) lh l)),
               postfix := postfix s4 @
                 [(np_mean (deque_append (nat (training_loss_display_averaging a)) lh l), lr)]\<rparr>))"
proof (cases "run_step g a lr s")
  case (Inl p)
  then show ?thesis by (cases p) (simp add: train_step_def)
next
  case (Inr p)
  obtain l s4 where p: "p = (l, s4)" by (cases p)
  with Inr have "g_step s4 \<noteq> None" using run_step_g_step by fast
  then show ?thesis using Inr p by (auto simp: train_step_def Let_def)
qed


lemma map_upt_shift: "map f [0..<Suc m] = f 0 # map (\<lambda>j. f (Suc j)) [0..<m]"
  by (simp add: map_upt_Suc del: upt_Suc)

lemma train_steps_postfix:
  fixes g :: "('w, 'b, 'a) graph"
  shows "map fst (postfix (snd (snd (snd
       (train_steps g a n (last_k (nat (training_loss_display_averaging a)) hs, lr, s)))))) =
   map fst (postfix s) @
   map (\<lambda>j. np_mean (last_k (nat (training_loss_display_averaging a))
                (hs @ take (Suc j)
                   (reported_losses g a n
                      (last_k (nat (training_loss_display_averaging a)) hs, lr, s)))))
     [0..<length (reported_losses g a n
                    (last_k (nat (training_loss_display_averaging a)) hs, lr, s))]"
proof (induction n arbitrary: hs lr s)
  case 0
  show ?case by simp
next
  case (Suc n)
  let ?k = "nat (training_loss_display_averaging a)"
  from train_step_cases [of g a lr s "last_k ?k hs"]
  show ?case
  proof (elim disjE exE conjE)
    fix e s1
    assume "run_step g a lr s = Inl (e, s1)"
      and "train_step g a (last_k ?k hs, lr, s) = (Some e, last_k ?k hs, lr, s1)"
    then show ?thesis
      by (simp add: run_step_err_fields(2))
  next
    fix l and s4 :: "('w, 'b, 'a) model"
    let ?lr' = "learning_rate_schedule a (sint (the (g_step s4)))"
    let ?s6 = "s4\<lparr>training_loss := Some (np_mean (deque_append ?k (last_k ?k hs) l)),
                 postfix := postfix s4 @ [(np_mean (deque_append ?k (last_k ?k hs) l), lr)]\<rparr>"
    assume run: "run_step g a lr s = Inr (l, s4)"
      and step: "train_step g a (last_k ?k hs, lr, s) =
                   (None, deque_append ?k (last_k ?k hs) l, ?lr', ?s6)"
    have win: "deque_append ?k (last_k ?k hs) l = last_k ?k (hs @ [l])"
      by (rule deque_append_last_k)
    have post: "map fst (postfix ?s6) = map fst (postfix s) @ [np_mean (last_k ?k (hs @ [l]))]"
      using run_step_fields(3) [OF run] by (simp add: win)
    define ls where "ls = reported_losses g a n (last_k ?k (hs @ [l]), ?lr', ?s6)"
    define res where "res = train_steps g a n (last_k ?k (hs @ [l]), ?lr', ?s6)"
    have lsS: "reported_losses g a (Suc n) (last_k ?k hs, lr, s) = l # ls"
      using run step by (simp add: win ls_def)
    have resS: "train_steps g a (Suc n) (last_k ?k hs, lr, s) = res"
      using step by (simp add: win res_def)
    have IH: "map fst (postfix (snd (snd (snd res)))) =
       (map fst (postfix s) @ [np_mean (last_k ?k (hs @ [l]))]) @
       map (\<lambda>j. np_mean (last_k ?k ((hs @ [l]) @ take (Suc j) ls))) [0..<length ls]"
      unfolding res_def ls_def post [symmetric] by (rule Suc.IH)
    have shift: "map (\<lambda>j. np_mean (last_k ?k (hs @ take (Suc j) (l # ls))))
         [0..<length (l # ls)] =
       np_mean (last_k ?k (hs @ [l])) #
       map (\<lambda>j. np_mean (last_k ?k ((hs @ [l]) @ take (Suc j) ls))) [0..<length ls]"
      using map_upt_shift [of "\<lambda>j. np_mean (last_k ?k (hs @ take (Suc j) (l # ls)))" "length ls"]
      by simp
    show ?thesis
      unfolding lsS resS IH shift by simp
  qed
qed


lemma run_step_err_training_loss:
  "run_step g a lr s = Inl (e, s') \<Longrightarrow> training_loss s' = training_loss s"
  by (auto simp: run_step_def next_batch_def Let_def
      split: list.splits sum.splits if_splits option.splits prod.splits)

lemma train_steps_training_loss:
  fixes g :: "('w, 'b, 'a) graph"
  shows "training_loss (snd (snd (snd
       (train_steps g a n (last_k (nat (training_loss_display_averaging a)) hs, lr, s))))) =
   (if reported_losses g a n (last_k (nat (training_loss_display_averaging a)) hs, lr, s) = []
    then training_loss s
    else Some (np_mean (last_k (nat (training_loss_display_averaging a))
           (hs @ reported_losses g a n
                   (last_k (nat (training_loss_display_averaging a)) hs, lr, s)))))"
proof (induction n arbitrary: hs lr s)
  case 0
  show ?case by simp
next
  case (Suc n)
  let ?k = "nat (training_loss_display_averaging a)"
  from train_step_cases [of g a lr s "last_k ?k hs"]
  show ?case
  proof (elim disjE exE conjE)
    fix e s1
    assume "run_step g a lr s = Inl (e, s1)"
      and "train_step g a (last_k ?k hs, lr, s) = (Some e, last_k ?k hs, lr, s1)"
    then show ?thesis
      by (simp add: run_step_err_training_loss)
  next
    fix l and s4 :: "('w, 'b, 'a) model"
    let ?lr' = "learning_rate_schedule a (sint (the (g_step s4)))"
    let ?s6 = "s4\<lparr>training_loss := Some (np_mean (deque_append ?k (last_k ?k hs) l)),
                 postfix := postfix s4 @ [(np_mean (deque_append ?k (last_k ?k hs) l), lr)]\<rparr>"
    assume run: "run_step g a lr s = Inr (l, s4)"
      and step: "train_step g a (last_k ?k hs, lr, s) =
                   (None, deque_append ?k (last_k ?k hs) l, ?lr', ?s6)"
    have win: "deque_append ?k (last_k ?k hs) l = last_k ?k (hs @ [l])"
      by (rule deque_append_last_k)
    have tl: "training_loss ?s6 = Some (np_mean (last_k ?k (hs @ [l])))"
      by (simp add: win)
    define ls where "ls = reported_losses g a n (last_k ?k (hs @ [l]), ?lr', ?s6)"
    define res where "res = train_steps g a n (last_k ?k (hs @ [l]), ?lr', ?s6)"
    have lsS: "reported_losses g a (Suc n) (last_k ?k hs, lr, s) = l # ls"
      using run step by (simp add: win ls_def)
    have resS: "train_steps g a (Suc n) (last_k ?k hs, lr, s) = res"
      using step by (simp add: win res_def)
    have IH: "training_loss (snd (snd (snd res))) =
       (if ls = [] then Some (np_mean (last_k ?k (hs @ [l])))
        else Some (np_mean (last_k ?k ((hs @ [l]) @ ls))))"
      unfolding res_def ls_def tl [symmetric] by (rule Suc.IH)
    show ?thesis
      unfolding lsS resS IH by simp
  qed
qed

lemma last_k_Nil: "last_k k [] = []"
  by (simp add: last_k_def)

text \<open>
  C6. In one epoch, with a window size that is not negative, the training loss shown after
  the \<open>j\<close>-th step is the mean of the last \<open>K\<close> of the losses that the steps have
  reported so far (of all of them while there are fewer than \<open>K\<close>), and the tracked
  training loss at the end is the mean of the last \<open>K\<close> losses of the epoch. The mean of
  finite numbers is their sum divided by their count. Rounding is not modelled.
\<close>

theorem training_loss_is_moving_average:
  fixes g :: "('w, 'b, 'a) graph"
  assumes "0 \<le> training_loss_display_averaging a"
  shows
    "map fst (drop (length (postfix s)) (postfix (snd (snd (snd (run_training g a lr s)))))) =
       map (\<lambda>j. np_mean (last_k (nat (training_loss_display_averaging a))
                   (take (Suc j) (reported_losses g a (nat (steps_per_epoch a)) ([], lr, s)))))
         [0..<length (reported_losses g a (nat (steps_per_epoch a)) ([], lr, s))]
     \<and> (reported_losses g a (nat (steps_per_epoch a)) ([], lr, s) \<noteq> [] \<longrightarrow>
          training_loss (snd (snd (snd (run_training g a lr s)))) =
            Some (np_mean (last_k (nat (training_loss_display_averaging a))
                    (reported_losses g a (nat (steps_per_epoch a)) ([], lr, s)))))
     \<and> (rs \<noteq> [] \<longrightarrow> np_mean (map Fin rs) = Fin (sum_list rs / real (length rs)))"
proof -
  let ?k = "nat (training_loss_display_averaging a)"
  let ?ls = "reported_losses g a (nat (steps_per_epoch a)) ([], lr, s)"
  let ?s' = "snd (snd (snd (run_training g a lr s)))"
  have run: "run_training g a lr s = train_steps g a (nat (steps_per_epoch a)) (last_k ?k [], lr, s)"
    using assms by (simp add: run_training_def last_k_Nil)
  have "map fst (postfix ?s') =
      map fst (postfix s) @ map (\<lambda>j. np_mean (last_k ?k (take (Suc j) ?ls))) [0..<length ?ls]"
    unfolding run using train_steps_postfix [of g a "nat (steps_per_epoch a)" "[]" lr s]
    by (simp add: last_k_Nil)
  then have "drop (length (postfix s)) (map fst (postfix ?s')) =
      map (\<lambda>j. np_mean (last_k ?k (take (Suc j) ?ls))) [0..<length ?ls]"
    by simp
  then have 1: "map fst (drop (length (postfix s)) (postfix ?s')) =
      map (\<lambda>j. np_mean (last_k ?k (take (Suc j) ?ls))) [0..<length ?ls]"
    by (simp add: drop_map)
  have 2: "training_loss ?s' = Some (np_mean (last_k ?k ?ls))" if "?ls \<noteq> []"
    unfolding run using train_steps_training_loss [of g a "nat (steps_per_epoch a)" "[]" lr s] that
    by (simp add: last_k_Nil)
  show ?thesis
    using 1 2 np_mean_Fin [of rs] by blast
qed


theorem training_loss_is_moving_average_witness:
  "reported_losses example_graph (example_args 1 4) 4 ([], 1, example_model [1, 2, 3, 4]) =
     [Fin 1, Fin 2, Fin 3, Fin 4]
   \<and> map fst (postfix (snd (snd (snd
        (run_training example_graph (example_args 1 4) 1 (example_model [1, 2, 3, 4])))))) =
     [Fin 1, Fin 1.5, Fin 2, Fin 3]
   \<and> training_loss (snd (snd (snd
        (run_training example_graph (example_args 1 4) 1 (example_model [1, 2, 3, 4]))))) =
     Some (Fin 3)
   \<and> np_mean [Fin 2, Fin 3, Fin 4] = Fin ((2 + 3 + 4) / 3)"
proof -
  let ?a = "example_args 1 4"
  let ?s = "example_model [1, 2, 3, 4]"
  have k: "0 \<le> training_loss_display_averaging ?a"
    and k3: "nat (training_loss_display_averaging ?a) = 3"
    and n: "nat (steps_per_epoch ?a) = 4"
    and p: "postfix ?s = []"
    by (simp_all add: example_defs)
  have ls: "reported_losses example_graph ?a 4 ([], 1, ?s) = [Fin 1, Fin 2, Fin 3, Fin 4]"
    by (simp add: eval_nat_numeral train_step_def run_step_def next_batch_def deque_append_def
        Let_def example_defs)
  have idx: "[0..<4] = [0, 1, 2, 3]"
    by (simp add: upt_rec)
  have rs: "[2, 3, 4 :: real] \<noteq> []"
    by simp
  show ?thesis
    using training_loss_is_moving_average
        [OF k, where g = example_graph and s = ?s and lr = 1 and rs = "[2, 3, 4]"] rs
    by (simp add: k3 n p ls idx last_k_def)
qed

subsection \<open>Counting the steps\<close>

lemma evaluate_inner_keeps:
  "postfix (snd (evaluate_inner g gen n s)) = postfix s"
  "sess_global_step (snd (evaluate_inner g gen n s)) = sess_global_step s"
proof -
  obtain mv gs vals out where
    "snd (evaluate_inner g gen n s) =
       s\<lparr>sess_metric_vars := mv, generators := gs, metric_values := vals, stdout := out\<rparr>"
    using evaluate_inner_frame [of g gen n s] by blast
  then show "postfix (snd (evaluate_inner g gen n s)) = postfix s"
    and "sess_global_step (snd (evaluate_inner g gen n s)) = sess_global_step s"
    by simp_all
qed

lemma evaluate_inner_keeps_dest:
  assumes "evaluate_inner g gen n s = (r, s')"
  shows "postfix s' = postfix s \<and> sess_global_step s' = sess_global_step s"
  using evaluate_inner_keeps [of g gen n s] by (simp add: assms)

lemma maybe_evaluate_keeps:
  "postfix (snd (maybe_evaluate g a epoch s)) = postfix s"
  "sess_global_step (snd (maybe_evaluate g a epoch s)) = sess_global_step s"
  by (auto simp: maybe_evaluate_def dest!: evaluate_inner_keeps_dest
      split: sum.splits bool.splits prod.splits option.splits)

lemma save_keeps:
  "postfix (snd (save d tags name b1 b2 b3 s)) = postfix s"
  "sess_global_step (snd (save d tags name b1 b2 b3 s)) = sess_global_step s"
  by (auto simp: save_def split: sum.splits option.splits)

lemma maybe_save_keeps:
  "postfix (snd (maybe_save a epoch s)) = postfix s"
  "sess_global_step (snd (maybe_save a epoch s)) = sess_global_step s"
  by (auto simp: maybe_save_def Let_def save_keeps split: sum.splits bool.splits)

lemma update_best_metric_values_keeps:
  "postfix (snd (update_best_metric_values i names s)) = postfix s"
  "sess_global_step (snd (update_best_metric_values i names s)) = sess_global_step s"
  by (induction i names s rule: update_best_metric_values.induct)
    (auto split: sum.splits)

lemma update_best_keeps:
  "postfix (snd (update_best a epoch s)) = postfix s"
  "sess_global_step (snd (update_best a epoch s)) = sess_global_step s"
  by (auto simp: update_best_def Let_def update_best_metric_values_keeps
      split: option.splits sum.splits bool.splits)


lemma train_steps_count:
  fixes g :: "('w, 'b, 'a) graph"
  assumes "train_steps g a n (lh, lr, s) = (None, lh', lr', s')"
  shows "sess_global_step s' = sess_global_step s + of_nat n \<and>
         length (postfix s') = length (postfix s) + n"
  using assms
proof (induction n arbitrary: lh lr s)
  case 0
  then show ?case by simp
next
  case (Suc n)
  from train_step_cases [of g a lr s lh]
  show ?case
  proof (elim disjE exE conjE)
    fix e s1
    assume "train_step g a (lh, lr, s) = (Some e, lh, lr, s1)"
    with Suc.prems show ?thesis by simp
  next
    fix l and s4 :: "('w, 'b, 'a) model"
    let ?lh = "deque_append (nat (training_loss_display_averaging a)) lh l"
    let ?s6 = "s4\<lparr>training_loss := Some (np_mean ?lh),
                 postfix := postfix s4 @ [(np_mean ?lh, lr)]\<rparr>"
    assume run: "run_step g a lr s = Inr (l, s4)"
      and step: "train_step g a (lh, lr, s) =
        (None, ?lh, learning_rate_schedule a (sint (the (g_step s4))), ?s6)"
    from Suc.prems step have
      "train_steps g a n (?lh, learning_rate_schedule a (sint (the (g_step s4))), ?s6) =
         (None, lh', lr', s')"
      by simp
    then have "sess_global_step s' = sess_global_step ?s6 + of_nat n \<and>
         length (postfix s') = length (postfix ?s6) + n"
      by (rule Suc.IH)
    then show ?thesis
      using run_step_fields(1) [OF run] run_step_fields(3) [OF run] by simp
  qed
qed

lemma train_epoch_count:
  fixes g :: "('w, 'b, 'a) graph"
  assumes "train_epoch g a epoch (lr, s) = (None, lr', s')"
  shows "sess_global_step s' = sess_global_step s + of_nat (nat (steps_per_epoch a)) \<and>
         length (postfix s') = length (postfix s) + nat (steps_per_epoch a)"
proof -
  obtain r1 lh1 lr1 s1 where rt: "run_training g a lr s = (r1, lh1, lr1, s1)"
    by (cases "run_training g a lr s") auto
  with assms have r1: "r1 = None"
    by (cases r1) (simp_all add: train_epoch_def)
  with rt have ts: "train_steps g a (nat (steps_per_epoch a)) ([], lr, s) = (None, lh1, lr1, s1)"
    by (simp add: run_training_def split: if_splits)
  obtain r2 s2 where ev: "maybe_evaluate g a epoch s1 = (r2, s2)"
    by (cases "maybe_evaluate g a epoch s1")
  obtain r3 s3 where sv: "maybe_save a epoch s2 = (r3, s3)"
    by (cases "maybe_save a epoch s2")
  obtain r4 s4 where ub: "update_best a epoch s3 = (r4, s4)"
    by (cases "update_best a epoch s3")
  from assms rt r1 ev sv ub have "s' = s4"
    by (cases r2; cases r3) (simp_all add: train_epoch_def)
  moreover have "postfix s4 = postfix s1 \<and> sess_global_step s4 = sess_global_step s1"
    using maybe_evaluate_keeps [of g a epoch s1] maybe_save_keeps [of a epoch s2]
      update_best_keeps [of a epoch s3] ev sv ub
    by simp
  ultimately show ?thesis
    using train_steps_count [OF ts] by simp
qed

lemma train_epochs_count:
  fixes g :: "('w, 'b, 'a) graph"
  assumes "train_epochs g a n epoch (lr, s) = (None, lr', s')"
  shows "sess_global_step s' = sess_global_step s + of_nat (n * nat (steps_per_epoch a)) \<and>
         length (postfix s') = length (postfix s) + n * nat (steps_per_epoch a)"
  using assms
proof (induction n arbitrary: epoch lr s)
  case 0
  then show ?case by simp
next
  case (Suc n)
  obtain r1 lr1 s1 where ep: "train_epoch g a epoch (lr, s) = (r1, lr1, s1)"
    by (cases "train_epoch g a epoch (lr, s)")
  with Suc.prems have r1: "r1 = None"
    by (cases r1) simp_all
  with Suc.prems ep have "train_epochs g a n (epoch + 1) (lr1, s1) = (None, lr', s')"
    by simp
  then have "sess_global_step s' = sess_global_step s1 + of_nat (n * nat (steps_per_epoch a)) \<and>
         length (postfix s') = length (postfix s1) + n * nat (steps_per_epoch a)"
    by (rule Suc.IH)
  then show ?case
    using train_epoch_count [OF ep [unfolded r1]] by (simp add: algebra_simps)
qed

lemma initialize_metrics_keeps:
  "postfix (initialize_metrics ms s) = postfix s"
  "sess_global_step (initialize_metrics ms s) = sess_global_step s"
  by (simp_all add: initialize_metrics_def Let_def)

lemma train_count:
  fixes g :: "('w, 'b, 'a) graph"
  assumes "fst (train g a s) = None"
  shows "sess_global_step (snd (train g a s)) =
           sess_global_step s + of_nat (nat (epochs a) * nat (steps_per_epoch a)) \<and>
         length (postfix (snd (train g a s))) =
           length (postfix s) + nat (epochs a) * nat (steps_per_epoch a)"
proof -
  let ?s3 = "initialize_metrics (metrics a)
      (s\<lparr>self_eval_dataset := Some (eval_dataset a), g_step := Some (sess_global_step s)\<rparr>)"
  let ?lr = "learning_rate_schedule a (sint (sess_global_step s))"
  obtain r lr' s' where te: "train_epochs g a (nat (epochs a)) 1 (?lr, ?s3) = (r, lr', s')"
    by (cases "train_epochs g a (nat (epochs a)) 1 (?lr, ?s3)")
  from assms have chk: "check_train_args a = None"
    by (cases "check_train_args a") (simp_all add: train_def)
  from assms chk have ok:
    "\<not> (record_summaries a \<and> (summaries_dir a = None \<or> summaries_name a = None))"
    by (auto simp: train_def Let_def split: if_splits)
  from chk ok te have tr: "train g a s = (r, s')"
    by (auto simp: train_def Let_def)
  with assms have "r = None" by simp
  with te have "train_epochs g a (nat (epochs a)) 1 (?lr, ?s3) = (None, lr', s')"
    by simp
  from train_epochs_count [OF this] show ?thesis
    by (simp add: tr initialize_metrics_keeps)
qed

lemma sint_add_of_nat:
  fixes x :: "32 word"
  assumes "sint x + int n < 2 ^ 31"
  shows "sint (x + of_nat n) = sint x + int n"
proof -
  have "x + of_nat n = word_of_int (sint x + int n)"
    by simp
  then have "sint (x + of_nat n) = signed_take_bit 31 (sint x + int n)"
    by (simp only: sint_sbintrunc') simp
  moreover have "- (2 ^ 31) \<le> sint x"
    using sint_ge [of x] by simp
  then have "- (2 ^ 31) \<le> sint x + int n"
    by simp
  ultimately show ?thesis
    using assms by (simp add: signed_take_bit_int_eq_self)
qed

subsection \<open>The window across epochs\<close>

lemma train_epoch_postfix:
  fixes g :: "('w, 'b, 'a) graph"
  shows "postfix (snd (snd (train_epoch g a epoch (lr, s)))) =
         postfix (snd (snd (snd (run_training g a lr s))))"
proof -
  obtain r1 lh1 lr1 s1 where rt: "run_training g a lr s = (r1, lh1, lr1, s1)"
    by (cases "run_training g a lr s") auto
  obtain r2 s2 where ev: "maybe_evaluate g a epoch s1 = (r2, s2)"
    by (cases "maybe_evaluate g a epoch s1")
  obtain r3 s3 where sv: "maybe_save a epoch s2 = (r3, s3)"
    by (cases "maybe_save a epoch s2")
  obtain r4 s4 where ub: "update_best a epoch s3 = (r4, s4)"
    by (cases "update_best a epoch s3")
  have keep: "postfix s2 = postfix s1" "postfix s3 = postfix s2" "postfix s4 = postfix s3"
    using maybe_evaluate_keeps(1) [of g a epoch s1] maybe_save_keeps(1) [of a epoch s2]
      update_best_keeps(1) [of a epoch s3] ev sv ub
    by simp_all
  show ?thesis
    using rt ev sv ub keep
    by (cases r1; cases r2; cases r3) (simp_all add: train_epoch_def)
qed

lemma reported_losses_first:
  assumes "run_step g a lr s = Inr (current_loss, s1)"
  shows "\<exists>rest. reported_losses g a (Suc m) (lh, lr, s) = current_loss # rest"
  using assms by (auto split: prod.splits option.splits)

text \<open>
  C10. Every epoch starts with an empty window. When the window size is positive and the
  epoch has at least one step, and the first step of the epoch goes through and reports
  a loss, then the first training loss that the epoch shows is that loss, whatever the
  training loss and the losses of the epochs before were; and after a step on the empty
  window the tracked training loss is the loss of that step.
\<close>

theorem window_is_new_each_epoch:
  fixes g :: "('w, 'b, 'a) graph"
  assumes "0 < training_loss_display_averaging a"
    and "0 < steps_per_epoch a"
    and "run_step g a lr s = Inr (current_loss, s1)"
  shows "length (postfix s) < length (postfix (snd (snd (train_epoch g a epoch (lr, s)))))
     \<and> fst (postfix (snd (snd (train_epoch g a epoch (lr, s)))) ! length (postfix s)) =
         current_loss
     \<and> training_loss (snd (snd (snd (train_step g a ([], lr, s))))) = Some current_loss"
proof -
  let ?k = "nat (training_loss_display_averaging a)"
  let ?p = "postfix (snd (snd (train_epoch g a epoch (lr, s))))"
  define n where "n = nat (steps_per_epoch a)"
  define ls where "ls = reported_losses g a n ([], lr, s)"
  obtain m where m: "n = Suc m"
    using assms(2) unfolding n_def by (cases "nat (steps_per_epoch a)") auto
  obtain rest where ls: "ls = current_loss # rest"
    unfolding ls_def m using reported_losses_first [OF assms(3)] by blast
  have k: "last_k ?k [current_loss] = [current_loss]"
    using assms(1) by (simp add: last_k_def)
  have run: "run_training g a lr s = train_steps g a n ([], lr, s)"
    using assms(1) by (simp add: run_training_def n_def)
  have "map fst (postfix (snd (snd (snd (train_steps g a n (last_k ?k [], lr, s)))))) =
      map fst (postfix s) @
      map (\<lambda>j. np_mean (last_k ?k ([] @ take (Suc j)
                 (reported_losses g a n (last_k ?k [], lr, s)))))
        [0..<length (reported_losses g a n (last_k ?k [], lr, s))]"
    by (rule train_steps_postfix)
  then have "map fst ?p = map fst (postfix s) @
      map (\<lambda>j. np_mean (last_k ?k (take (Suc j) ls))) [0..<length ls]"
    unfolding train_epoch_postfix run last_k_Nil ls_def by simp
  then have "map fst ?p = map fst (postfix s) @
      map (\<lambda>j. np_mean (last_k ?k (take (Suc j) (current_loss # rest)))) [0..<Suc (length rest)]"
    unfolding ls by simp
  then have p: "map fst ?p =
      map fst (postfix s) @ current_loss #
      map (\<lambda>j. np_mean (last_k ?k (take (Suc (Suc j)) (current_loss # rest)))) [0..<length rest]"
    unfolding map_upt_shift by (simp add: k np_mean_single del: np_mean.simps)
  have len: "length (postfix s) < length ?p"
    using arg_cong [OF p, of length] by simp
  have "map fst ?p ! length (postfix s) = current_loss"
    unfolding p by (simp add: nth_append)
  with len have nth: "fst (?p ! length (postfix s)) = current_loss"
    by simp
  have "deque_append ?k [] current_loss = [current_loss]"
    using assms(1) by (simp add: deque_append_def)
  then have "training_loss (snd (snd (snd (train_step g a ([], lr, s))))) = Some current_loss"
    using train_step_cases [of g a lr s "[]"] assms(3)
    by (auto simp: np_mean_single simp del: np_mean.simps)
  with len nth show ?thesis by simp
qed


theorem window_is_new_each_epoch_witness:
  "map fst (postfix (snd (snd (train_epoch example_graph (example_args 2 2) 1
       (1, example_model [10, 20, 1, 2]))))) = [Fin 10, Fin 15]
   \<and> fst (postfix (snd (snd (train_epoch example_graph (example_args 2 2) 2
       (1, snd (snd (train_epoch example_graph (example_args 2 2) 1
          (1, example_model [10, 20, 1, 2]))))))) ! 2) = Fin 1"
proof -
  let ?a = "example_args 2 2"
  let ?s1 = "snd (snd (train_epoch example_graph ?a 1 (1, example_model [10, 20, 1, 2])))"
  have k: "0 < training_loss_display_averaging ?a" and n: "0 < steps_per_epoch ?a"
    by (simp_all add: example_defs)
  have s1: "?s1 = (example_model [10, 20, 1, 2])\<lparr>variables_updated := True,
      training_loss := Some (Fin 15), best_training_loss := Fin 15, g_step := Some 2,
      sess_weights := 2, sess_global_step := 2,
      generators := (\<lambda>gen. [10, 20, 1, 2])(0 := [1, 2]),
      postfix := [(Fin 10, 1), (Fin 15, 1)]\<rparr>"
    by (simp add: train_defs example_defs eval_nat_numeral)
  have run: "\<exists>sx. run_step example_graph ?a 1 ?s1 = Inr (Fin 1, sx)"
    unfolding s1 by (simp add: run_step_def next_batch_def example_defs)
  then obtain sx where sx: "run_step example_graph ?a 1 ?s1 = Inr (Fin 1, sx)" ..
  have len: "length (postfix ?s1) = 2" and p: "map fst (postfix ?s1) = [Fin 10, Fin 15]"
    unfolding s1 by simp_all
  show ?thesis
    using window_is_new_each_epoch [OF k n sx, of 2] len p by simp
qed

subsection \<open>Running to the end\<close>

lemma run_step_ok:
  fixes g :: "('w, 'b, 'a) graph"
  assumes "generators s (train_generator a) = b # bs" and "g_step s \<noteq> None"
  shows "\<exists>l s'. run_step g a lr s = Inr (l, s') \<and>
     generators s' = (generators s)(train_generator a := bs) \<and>
     metric_names s' = metric_names s \<and>
     metric_value_tensors s' = metric_value_tensors s \<and>
     best_metric_values s' = best_metric_values s"
  using assms
  by (auto simp: run_step_def next_batch_def Let_def split: prod.splits)

lemma train_step_ok:
  fixes g :: "('w, 'b, 'a) graph"
  assumes "generators s (train_generator a) = b # bs" and "g_step s \<noteq> None"
  shows "\<exists>lh' lr' s'. train_step g a (lh, lr, s) = (None, lh', lr', s') \<and>
     generators s' = (generators s)(train_generator a := bs) \<and>
     g_step s' \<noteq> None \<and> training_loss s' \<noteq> None \<and>
     metric_names s' = metric_names s \<and>
     metric_value_tensors s' = metric_value_tensors s \<and>
     best_metric_values s' = best_metric_values s"
proof -
  obtain l s4 where run: "run_step g a lr s = Inr (l, s4)"
    and f: "generators s4 = (generators s)(train_generator a := bs)"
      "metric_names s4 = metric_names s"
      "metric_value_tensors s4 = metric_value_tensors s"
      "best_metric_values s4 = best_metric_values s"
    using run_step_ok [OF assms, of g lr] by blast
  have gs: "g_step s4 \<noteq> None"
    using run by (rule run_step_g_step)
  from train_step_cases [of g a lr s lh] run gs f show ?thesis
    by auto
qed

lemma train_steps_ok:
  fixes g :: "('w, 'b, 'a) graph"
  assumes "n \<le> length (generators s (train_generator a))" and "g_step s \<noteq> None"
  shows "\<exists>lh' lr' s'. train_steps g a n (lh, lr, s) = (None, lh', lr', s') \<and>
     generators s' =
       (generators s)(train_generator a := drop n (generators s (train_generator a))) \<and>
     g_step s' \<noteq> None \<and>
     (if n = 0 then training_loss s' = training_loss s else training_loss s' \<noteq> None) \<and>
     metric_names s' = metric_names s \<and>
     metric_value_tensors s' = metric_value_tensors s \<and>
     best_metric_values s' = best_metric_values s"
  using assms
proof (induction n arbitrary: lh lr s)
  case 0
  then show ?case by simp
next
  case (Suc n)
  let ?tg = "train_generator a"
  from Suc.prems obtain b bs where bs: "generators s ?tg = b # bs"
    by (cases "generators s ?tg") auto
  obtain lh1 lr1 s1 where step: "train_step g a (lh, lr, s) = (None, lh1, lr1, s1)"
    and g1: "generators s1 = (generators s)(?tg := bs)"
    and f1: "g_step s1 \<noteq> None" "training_loss s1 \<noteq> None"
      "metric_names s1 = metric_names s" "metric_value_tensors s1 = metric_value_tensors s"
      "best_metric_values s1 = best_metric_values s"
    using train_step_ok [OF bs Suc.prems(2), of g lh lr] by blast
  have "n \<le> length (generators s1 ?tg)"
    using Suc.prems(1) bs g1 by simp
  from Suc.IH [OF this f1(1), of lh1 lr1]
  obtain lh' lr' s' where rest: "train_steps g a n (lh1, lr1, s1) = (None, lh', lr', s')"
    and g': "generators s' = (generators s1)(?tg := drop n (generators s1 ?tg))"
    and f': "g_step s' \<noteq> None"
      "if n = 0 then training_loss s' = training_loss s1 else training_loss s' \<noteq> None"
      "metric_names s' = metric_names s1" "metric_value_tensors s' = metric_value_tensors s1"
      "best_metric_values s' = best_metric_values s1"
    by blast
  have "train_steps g a (Suc n) (lh, lr, s) = (None, lh', lr', s')"
    using step rest by simp
  moreover have "generators s' = (generators s)(?tg := drop (Suc n) (generators s ?tg))"
    using g' g1 bs by simp
  moreover have "training_loss s' \<noteq> None"
    using f'(2) f1(2) by (simp split: if_splits)
  ultimately show ?case
    using f'(1,3,4,5) f1(3,4,5) by (intro exI [of _ lh'] exI [of _ lr'] exI [of _ s']) simp
qed


lemma update_best_metric_values_ok:
  fixes s :: "('w, 'b, 'a) model"
  assumes "i + length names \<le> length (metric_values s)"
    and "i + length names \<le> length (best_metric_values s)"
  shows "\<exists>b. update_best_metric_values i names s = (None, s\<lparr>best_metric_values := b\<rparr>) \<and>
     length b = length (best_metric_values s)"
  using assms
proof (induction names arbitrary: i s)
  case Nil
  show ?case
    by (rule exI [of _ "best_metric_values s"]) simp
next
  case (Cons name names)
  have i: "i < length (metric_values s)" "i < length (best_metric_values s)"
    using Cons.prems by simp_all
  have "\<exists>better.
     (if name = ''loss''
      then compare_at flt_less (metric_values s) (best_metric_values s) i
      else if name \<in> {''accuracry'', ''mean_iou''}
      then compare_at (\<lambda>v b. flt_less b v) (metric_values s) (best_metric_values s) i
      else Inr False) = Inr better"
    using i by (auto simp: compare_at_def list_get_def simp del: insert_iff)
  then obtain better where cmp:
    "(if name = ''loss''
      then compare_at flt_less (metric_values s) (best_metric_values s) i
      else if name \<in> {''accuracry'', ''mean_iou''}
      then compare_at (\<lambda>v b. flt_less b v) (metric_values s) (best_metric_values s) i
      else Inr False) = Inr better" ..
  let ?s1 = "if better
     then s\<lparr>best_metric_values := (best_metric_values s)[i := metric_values s ! i]\<rparr> else s"
  have len: "length (best_metric_values ?s1) = length (best_metric_values s)"
    "metric_values ?s1 = metric_values s"
    by simp_all
  have "Suc i + length names \<le> length (metric_values ?s1)"
    "Suc i + length names \<le> length (best_metric_values ?s1)"
    using Cons.prems len by simp_all
  from Cons.IH [OF this] obtain b where
    b: "update_best_metric_values (Suc i) names ?s1 = (None, ?s1\<lparr>best_metric_values := b\<rparr>)"
    and lb: "length b = length (best_metric_values ?s1)"
    by blast
  have "?s1\<lparr>best_metric_values := b\<rparr> = s\<lparr>best_metric_values := b\<rparr>"
    by simp
  with b have "update_best_metric_values i (name # names) s = (None, s\<lparr>best_metric_values := b\<rparr>)"
    using cmp by (simp del: insert_iff)
  with lb len show ?case by metis
qed

lemma evaluate_inner_ok:
  fixes g :: "('w, 'b, 'a) graph"
  assumes "nat nb \<le> length (generators s gen)"
    and "length (metric_value_tensors s) = length (metric_names s)"
  shows "\<exists>s'. evaluate_inner g gen nb s = (None, s') \<and>
     generators s' = (generators s)(gen := drop (nat nb) (generators s gen)) \<and>
     length (metric_values s') = length (metric_names s) \<and>
     metric_names s' = metric_names s \<and>
     metric_value_tensors s' = metric_value_tensors s \<and>
     best_metric_values s' = best_metric_values s \<and>
     g_step s' = g_step s \<and> training_loss s' = training_loss s"
proof -
  obtain r s' where res: "evaluate_inner g gen nb s = (r, s')"
    by (cases "evaluate_inner g gen nb s")
  obtain mv gs vals out where
    "snd (evaluate_inner g gen nb s) =
       s\<lparr>sess_metric_vars := mv, generators := gs, metric_values := vals, stdout := out\<rparr>"
    using evaluate_inner_frame [of g gen nb s] by blast
  then have frame: "s' =
       s\<lparr>sess_metric_vars := mv, generators := gs, metric_values := vals, stdout := out\<rparr>"
    using res by simp
  have "r = None"
    using evaluate_inner_enough(4) [OF assms(1), of g] assms(2) res by simp
  moreover have "generators s' = (generators s)(gen := drop (nat nb) (generators s gen))"
    using evaluate_inner_enough(2) [OF assms(1), of g] res by simp
  moreover have "length (metric_values s') = length (metric_names s)"
    using evaluate_inner_enough(3) [OF assms(1), of g] assms(2) res by simp
  ultimately show ?thesis
    using res frame by simp
qed


lemma drop_one_generator:
  assumes "m \<le> length (gens gen)"
  shows "length (gens x) \<le> length ((gens(gen := drop m (gens gen))) x) + m"
  using assms by simp

lemma maybe_evaluate_ok:
  fixes g :: "('w, 'b, 'a) graph"
  assumes mode: "eval_dataset a = ''train'' \<or>
      (eval_dataset a = ''val'' \<and> (\<exists>vg vs. val_generator a = Some vg \<and> val_steps a = Some vs))"
    and freq: "eval_frequency a \<noteq> 0"
    and lists: "length (metric_value_tensors s) = length (metric_names s)"
    and train_supply: "nat (steps_per_epoch a) \<le> length (generators s (train_generator a))"
    and val_supply: "\<And>vg vs. val_generator a = Some vg \<Longrightarrow> val_steps a = Some vs \<Longrightarrow>
        nat vs \<le> length (generators s vg)"
  shows "\<exists>s'. maybe_evaluate g a epoch s = (None, s') \<and>
     (\<forall>x. length (generators s x) + nat (steps_per_epoch a) \<le>
            length (generators s' x) + batches_per_epoch a) \<and>
     metric_names s' = metric_names s \<and>
     metric_value_tensors s' = metric_value_tensors s \<and>
     best_metric_values s' = best_metric_values s \<and>
     g_step s' = g_step s \<and> training_loss s' = training_loss s \<and>
     (metrics a \<noteq> {} \<and> epoch mod eval_frequency a = 0 \<longrightarrow>
        length (metric_values s') = length (metric_names s))"
proof (cases "metrics a \<noteq> {} \<and> epoch mod eval_frequency a = 0")
  case False
  then have "maybe_evaluate g a epoch s = (None, s)"
    using freq by (auto simp: maybe_evaluate_def py_divides_def)
  then show ?thesis
    using False by (auto simp: batches_per_epoch_def)
next
  case True
  then have div: "py_divides epoch (eval_frequency a) = Inr True"
    using freq by (simp add: py_divides_def)
  from mode show ?thesis
  proof
    assume tr: "eval_dataset a = ''train''"
    obtain s' where ev: "evaluate_inner g (train_generator a) (steps_per_epoch a) s = (None, s')"
      and gens: "generators s' = (generators s)(train_generator a :=
          drop (nat (steps_per_epoch a)) (generators s (train_generator a)))"
      and f: "length (metric_values s') = length (metric_names s)"
        "metric_names s' = metric_names s" "metric_value_tensors s' = metric_value_tensors s"
        "best_metric_values s' = best_metric_values s" "g_step s' = g_step s"
        "training_loss s' = training_loss s"
      using evaluate_inner_ok [OF train_supply lists, of g] by blast
    let ?s'' = "if record_summaries a
       then s'\<lparr>summaries := summaries s' @ [EvaluationSummary (g_step s')]\<rparr> else s'"
    have res: "maybe_evaluate g a epoch s = (None, ?s'')"
      using True div tr ev by (simp add: maybe_evaluate_def)
    have pulled: "length (generators s x) \<le> length (generators s' x) + nat (steps_per_epoch a)"
      for x
      unfolding gens using train_supply by (rule drop_one_generator)
    have "length (generators s x) + nat (steps_per_epoch a) \<le>
        length (generators ?s'' x) + batches_per_epoch a" for x
      using pulled [of x] by (simp add: batches_per_epoch_def)
    then show ?thesis
      using res f by simp
  next
    assume "eval_dataset a = ''val'' \<and>
      (\<exists>vg vs. val_generator a = Some vg \<and> val_steps a = Some vs)"
    then obtain vg vs where va: "eval_dataset a = ''val''"
      and vg: "val_generator a = Some vg" and vs: "val_steps a = Some vs"
      by blast
    have nottrain: "eval_dataset a \<noteq> ''train''"
      using va by simp
    have vsup: "nat vs \<le> length (generators s vg)"
      using vg vs by (rule val_supply)
    obtain s' where ev: "evaluate_inner g vg vs s = (None, s')"
      and gens: "generators s' = (generators s)(vg := drop (nat vs) (generators s vg))"
      and f: "length (metric_values s') = length (metric_names s)"
        "metric_names s' = metric_names s" "metric_value_tensors s' = metric_value_tensors s"
        "best_metric_values s' = best_metric_values s" "g_step s' = g_step s"
        "training_loss s' = training_loss s"
      using evaluate_inner_ok [OF vsup lists, of g] by blast
    let ?s'' = "if record_summaries a
       then s'\<lparr>summaries := summaries s' @ [EvaluationSummary (g_step s')]\<rparr> else s'"
    have res: "maybe_evaluate g a epoch s = (None, ?s'')"
      using True div va nottrain vg vs ev by (simp add: maybe_evaluate_def)
    have pulled: "length (generators s x) \<le> length (generators s' x) + nat vs" for x
      unfolding gens using vsup by (rule drop_one_generator)
    have "length (generators s x) + nat (steps_per_epoch a) \<le>
        length (generators ?s'' x) + batches_per_epoch a" for x
      using pulled [of x] by (simp add: batches_per_epoch_def vs)
    then show ?thesis
      using res f by simp
  qed
qed

lemma update_best_ok:
  fixes s :: "('w, 'b, 'a) model"
  assumes tl: "training_loss s \<noteq> None"
    and freq: "eval_frequency a \<noteq> 0"
    and best: "length (best_metric_values s) = length (metric_names s)"
    and vals: "epoch mod eval_frequency a = 0 \<Longrightarrow>
        length (metric_names s) \<le> length (metric_values s)"
  shows "\<exists>bt b. update_best a epoch s =
       (None, s\<lparr>best_training_loss := bt, best_metric_values := b\<rparr>) \<and>
     length b = length (best_metric_values s)"
proof -
  from tl obtain t where t: "training_loss s = Some t" by auto
  define bt where "bt = (if flt_less t (best_training_loss s) then t else best_training_loss s)"
  let ?s1 = "s\<lparr>best_training_loss := bt\<rparr>"
  have s1: "(if flt_less t (best_training_loss s) then s\<lparr>best_training_loss := t\<rparr> else s) = ?s1"
    by (simp add: bt_def)
  show ?thesis
  proof (cases "epoch mod eval_frequency a = 0")
    case False
    then have "update_best a epoch s = (None, ?s1)"
      using t freq by (simp add: update_best_def py_divides_def Let_def s1)
    also have "?s1 = s\<lparr>best_training_loss := bt, best_metric_values := best_metric_values s\<rparr>"
      by simp
    finally have "update_best a epoch s =
        (None, s\<lparr>best_training_loss := bt, best_metric_values := best_metric_values s\<rparr>)" .
    then show ?thesis
      by (intro exI [of _ bt] exI [of _ "best_metric_values s"]) simp
  next
    case True
    have "0 + length (metric_names ?s1) \<le> length (metric_values ?s1)"
      "0 + length (metric_names ?s1) \<le> length (best_metric_values ?s1)"
      using vals [OF True] best by simp_all
    from update_best_metric_values_ok [OF this] obtain b where
      b: "update_best_metric_values 0 (metric_names ?s1) ?s1 =
            (None, ?s1\<lparr>best_metric_values := b\<rparr>)"
      and lb: "length b = length (best_metric_values ?s1)"
      by blast
    have "update_best a epoch s = (None, ?s1\<lparr>best_metric_values := b\<rparr>)"
      using t freq True b by (simp add: update_best_def py_divides_def Let_def s1)
    then have "update_best a epoch s =
        (None, s\<lparr>best_training_loss := bt, best_metric_values := b\<rparr>)"
      by simp
    then show ?thesis
      using lb by (intro exI [of _ bt] exI [of _ b]) simp
  qed
qed


lemma train_epoch_ok:
  fixes g :: "('w, 'b, 'a) graph"
  assumes mode: "eval_dataset a = ''train'' \<or>
      (eval_dataset a = ''val'' \<and> (\<exists>vg vs. val_generator a = Some vg \<and> val_steps a = Some vs))"
    and window: "0 \<le> training_loss_display_averaging a"
    and freq: "eval_frequency a \<noteq> 0"
    and nosave: "\<not> save_during_training a"
    and inv: "tracking_consistent a s"
    and sup: "enough_batches (Suc k) a s"
    and tl: "0 < steps_per_epoch a \<or> training_loss s \<noteq> None"
  shows "\<exists>lr' s'. train_epoch g a epoch (lr, s) = (None, lr', s') \<and>
     tracking_consistent a s' \<and> enough_batches k a s' \<and> training_loss s' \<noteq> None"
proof -
  let ?tg = "train_generator a"
  let ?n = "nat (steps_per_epoch a)"
  let ?B = "batches_per_epoch a"
  have B: "2 * ?n \<le> ?B"
    by (simp add: batches_per_epoch_def)
  have supt: "?B + k * ?B \<le> length (generators s ?tg)"
    using sup by (simp add: enough_batches_def)
  have supv: "?B + k * ?B \<le> length (generators s vg)" if "val_generator a = Some vg" for vg
    using sup that by (simp add: enough_batches_def)
  have gs: "g_step s \<noteq> None"
    and lists: "length (metric_value_tensors s) = length (metric_names s)"
    and best: "length (best_metric_values s) = length (metric_names s)"
    and none: "metrics a = {} \<Longrightarrow> metric_names s = []"
    using inv by (simp_all add: tracking_consistent_def)
  have n: "?n \<le> length (generators s ?tg)"
    using B supt by simp
  obtain lh1 lr1 s1 where ts: "train_steps g a ?n ([], lr, s) = (None, lh1, lr1, s1)"
    and g1: "generators s1 = (generators s)(?tg := drop ?n (generators s ?tg))"
    and gs1: "g_step s1 \<noteq> None"
    and tl1': "if ?n = 0 then training_loss s1 = training_loss s else training_loss s1 \<noteq> None"
    and f1: "metric_names s1 = metric_names s" "metric_value_tensors s1 = metric_value_tensors s"
      "best_metric_values s1 = best_metric_values s"
    using train_steps_ok [OF n gs, of g "[]" lr] by blast
  have rt: "run_training g a lr s = (None, lh1, lr1, s1)"
    using window ts by (simp add: run_training_def)
  have tl1: "training_loss s1 \<noteq> None"
    using tl1' tl by (auto split: if_splits)
  have pulled1: "length (generators s x) \<le> length (generators s1 x) + ?n" for x
    unfolding g1 using n by (rule drop_one_generator)
  have n1: "?n \<le> length (generators s1 ?tg)"
    using pulled1 [of ?tg] B supt by simp
  have v1: "nat vs \<le> length (generators s1 vg)"
    if "val_generator a = Some vg" and "val_steps a = Some vs" for vg vs
  proof -
    have "?n + nat vs \<le> ?B"
      using that(2) by (simp add: batches_per_epoch_def)
    then show ?thesis
      using pulled1 [of vg] supv [OF that(1)] by simp
  qed
  have lists1: "length (metric_value_tensors s1) = length (metric_names s1)"
    using lists f1 by simp
  obtain s2 where ev: "maybe_evaluate g a epoch s1 = (None, s2)"
    and pulled2: "\<forall>x. length (generators s1 x) + ?n \<le> length (generators s2 x) + ?B"
    and f2: "metric_names s2 = metric_names s1" "metric_value_tensors s2 = metric_value_tensors s1"
      "best_metric_values s2 = best_metric_values s1" "g_step s2 = g_step s1"
      "training_loss s2 = training_loss s1"
    and vals2: "metrics a \<noteq> {} \<and> epoch mod eval_frequency a = 0 \<longrightarrow>
        length (metric_values s2) = length (metric_names s1)"
    using maybe_evaluate_ok [OF mode freq lists1 n1 v1, of g epoch] by blast
  have sv: "maybe_save a epoch s2 = (None, s2)"
    using nosave by (simp add: maybe_save_def)
  have tl2: "training_loss s2 \<noteq> None"
    using tl1 f2 by simp
  have best2: "length (best_metric_values s2) = length (metric_names s2)"
    using best f1 f2 by simp
  have vals: "length (metric_names s2) \<le> length (metric_values s2)"
    if "epoch mod eval_frequency a = 0"
  proof (cases "metrics a = {}")
    case True
    then show ?thesis using none f1 f2 by simp
  next
    case False
    then show ?thesis using vals2 that f2 by simp
  qed
  obtain bt b where ub: "update_best a epoch s2 =
      (None, s2\<lparr>best_training_loss := bt, best_metric_values := b\<rparr>)"
    and lb: "length b = length (best_metric_values s2)"
    using update_best_ok [OF tl2 freq best2 vals] by blast
  let ?s4 = "s2\<lparr>best_training_loss := bt, best_metric_values := b\<rparr>"
  have res: "train_epoch g a epoch (lr, s) = (None, lr1, ?s4)"
    using rt ev sv ub by (simp add: train_epoch_def)
  have inv4: "tracking_consistent a ?s4"
    using gs1 lists best none f1 f2 lb by (simp add: tracking_consistent_def)
  have left: "k * ?B \<le> length (generators s2 x)" if "?B + k * ?B \<le> length (generators s x)" for x
    using that pulled1 [of x] pulled2 [rule_format, of x] by simp
  have sup4: "enough_batches k a ?s4"
    using left [OF supt] left [OF supv] by (simp add: enough_batches_def split: option.splits)
  show ?thesis
    using res inv4 sup4 tl2 by (intro exI [of _ lr1] exI [of _ ?s4]) simp
qed

lemma train_epochs_ok:
  fixes g :: "('w, 'b, 'a) graph"
  assumes mode: "eval_dataset a = ''train'' \<or>
      (eval_dataset a = ''val'' \<and> (\<exists>vg vs. val_generator a = Some vg \<and> val_steps a = Some vs))"
    and window: "0 \<le> training_loss_display_averaging a"
    and freq: "eval_frequency a \<noteq> 0"
    and nosave: "\<not> save_during_training a"
    and inv: "tracking_consistent a s"
    and sup: "enough_batches k a s"
    and tl: "0 < steps_per_epoch a \<or> training_loss s \<noteq> None"
  shows "\<exists>lr' s'. train_epochs g a k epoch (lr, s) = (None, lr', s')"
  using inv sup tl
proof (induction k arbitrary: epoch lr s)
  case 0
  show ?case by simp
next
  case (Suc k)
  obtain lr1 s1 where ep: "train_epoch g a epoch (lr, s) = (None, lr1, s1)"
    and 1: "tracking_consistent a s1" "enough_batches k a s1" "training_loss s1 \<noteq> None"
    using train_epoch_ok [OF mode window freq nosave Suc.prems, of g epoch lr] by blast
  have "\<exists>lr' s'. train_epochs g a k (epoch + 1) (lr1, s1) = (None, lr', s')"
    using 1 by (intro Suc.IH) simp_all
  then show ?case
    using ep by simp
qed

lemma check_train_args_mode:
  assumes "check_train_args a = None"
  shows "eval_dataset a = ''train'' \<or>
      (eval_dataset a = ''val'' \<and> (\<exists>vg vs. val_generator a = Some vg \<and> val_steps a = Some vs))"
proof -
  define c1 where "c1 \<longleftrightarrow> eval_dataset a \<notin> {''train'', ''val''}"
  define c2 where
    "c2 \<longleftrightarrow> eval_dataset a = ''val'' \<and> (val_generator a = None \<or> val_steps a = None)"
  have "check_train_args a \<noteq> None" if "c1 \<or> c2"
    using that unfolding check_train_args_def c1_def [symmetric] c2_def [symmetric]
    by (cases c1; cases c2) simp_all
  with assms have "\<not> c1" and "\<not> c2" by auto
  then show ?thesis
    unfolding c1_def c2_def by auto
qed

lemma initialize_metrics_consistent:
  "length (metric_value_tensors (initialize_metrics ms s)) =
     length (metric_names (initialize_metrics ms s))"
  "length (best_metric_values (initialize_metrics ms s)) =
     length (metric_names (initialize_metrics ms s))"
  "ms = {} \<Longrightarrow> metric_names (initialize_metrics ms s) = []"
  "g_step (initialize_metrics ms s) = g_step s"
  "generators (initialize_metrics ms s) = generators s"
  "training_loss (initialize_metrics ms s) = training_loss s"
  by (simp_all add: initialize_metrics_def Let_def)

lemma train_ok:
  fixes g :: "('w, 'b, 'a) graph"
  assumes chk: "check_train_args a = None"
    and summ: "\<not> (record_summaries a \<and> (summaries_dir a = None \<or> summaries_name a = None))"
    and window: "0 \<le> training_loss_display_averaging a"
    and freq: "eval_frequency a \<noteq> 0"
    and nosave: "\<not> save_during_training a"
    and tl: "0 < steps_per_epoch a \<or> training_loss s \<noteq> None"
    and sup: "enough_batches (nat (epochs a)) a s"
  shows "fst (train g a s) = None"
proof -
  let ?s3 = "initialize_metrics (metrics a)
      (s\<lparr>self_eval_dataset := Some (eval_dataset a), g_step := Some (sess_global_step s)\<rparr>)"
  let ?lr = "learning_rate_schedule a (sint (sess_global_step s))"
  have inv: "tracking_consistent a ?s3"
    by (simp add: tracking_consistent_def initialize_metrics_consistent)
  have sup3: "enough_batches (nat (epochs a)) a ?s3"
    using sup by (simp add: enough_batches_def initialize_metrics_consistent split: option.splits)
  have tl3: "0 < steps_per_epoch a \<or> training_loss ?s3 \<noteq> None"
    using tl by (simp add: initialize_metrics_consistent)
  obtain lr' s' where "train_epochs g a (nat (epochs a)) 1 (?lr, ?s3) = (None, lr', s')"
    using train_epochs_ok [OF check_train_args_mode [OF chk] window freq nosave inv sup3 tl3]
    by blast
  then show ?thesis
    using chk summ by (auto simp: train_def Let_def)
qed

text \<open>
  What holds of every call of \<^verbatim>\<open>train\<close> that returns: the step counter of the session is
  its value at the call plus \<^verbatim>\<open>epochs\<close> times \<^verbatim>\<open>steps_per_epoch\<close> (negative arguments
  counting as zero), in 32-bit arithmetic and, when that sum stays below \<open>2\<^sup>3\<^sup>1\<close>, as an
  integer, and that many steps have shown their loss. Each step that goes through adds
  exactly one to the counter. And \<^verbatim>\<open>train\<close> does return when its arguments pass the
  checks, the summary directory and name are given if summaries are recorded, the window
  size is not negative, the evaluation frequency is not zero, nothing is saved during
  training, there is a training loss to compare at the end of the first epoch, and the
  generators hold enough batches for all epochs.
\<close>

lemma train_runs_all_steps:
  fixes g :: "('w, 'b, 'a) graph"
  shows
  "(fst (train g a s) = None \<longrightarrow>
      sess_global_step (snd (train g a s)) =
        sess_global_step s + of_nat (nat (epochs a) * nat (steps_per_epoch a))
      \<and> length (postfix (snd (train g a s))) =
        length (postfix s) + nat (epochs a) * nat (steps_per_epoch a)
      \<and> (sint (sess_global_step s) + int (nat (epochs a) * nat (steps_per_epoch a)) < 2 ^ 31 \<longrightarrow>
           sint (sess_global_step (snd (train g a s))) =
             sint (sess_global_step s) + int (nat (epochs a) * nat (steps_per_epoch a))))
   \<and> (run_step g a lr s = Inr (current_loss, s1) \<longrightarrow>
        sess_global_step s1 = sess_global_step s + 1)
   \<and> (check_train_args a = None \<and>
        \<not> (record_summaries a \<and> (summaries_dir a = None \<or> summaries_name a = None)) \<and>
        0 \<le> training_loss_display_averaging a \<and> eval_frequency a \<noteq> 0 \<and>
        \<not> save_during_training a \<and>
        (0 < steps_per_epoch a \<or> training_loss s \<noteq> None) \<and>
        enough_batches (nat (epochs a)) a s
      \<longrightarrow> fst (train g a s) = None)"
proof (intro conjI impI)
  assume ret: "fst (train g a s) = None"
  show "sess_global_step (snd (train g a s)) =
        sess_global_step s + of_nat (nat (epochs a) * nat (steps_per_epoch a))"
    using train_count [OF ret] by simp
  show "length (postfix (snd (train g a s))) =
        length (postfix s) + nat (epochs a) * nat (steps_per_epoch a)"
    using train_count [OF ret] by simp
  assume "sint (sess_global_step s) + int (nat (epochs a) * nat (steps_per_epoch a)) < 2 ^ 31"
  then have "sint (sess_global_step s + of_nat (nat (epochs a) * nat (steps_per_epoch a))) =
      sint (sess_global_step s) + int (nat (epochs a) * nat (steps_per_epoch a))"
    by (rule sint_add_of_nat)
  then show "sint (sess_global_step (snd (train g a s))) =
             sint (sess_global_step s) + int (nat (epochs a) * nat (steps_per_epoch a))"
    using train_count [OF ret] by simp
next
  assume "run_step g a lr s = Inr (current_loss, s1)"
  then show "sess_global_step s1 = sess_global_step s + 1"
    by (rule run_step_fields(1))
next
  assume "check_train_args a = None \<and>
        \<not> (record_summaries a \<and> (summaries_dir a = None \<or> summaries_name a = None)) \<and>
        0 \<le> training_loss_display_averaging a \<and> eval_frequency a \<noteq> 0 \<and>
        \<not> save_during_training a \<and>
        (0 < steps_per_epoch a \<or> training_loss s \<noteq> None) \<and>
        enough_batches (nat (epochs a)) a s"
  then show "fst (train g a s) = None"
    by (elim conjE) (rule train_ok)
qed

lemma train_runs_all_steps_example:
  "fst (train example_graph evaluating_args (example_model [1, 2, 3, 4, 5, 6, 7, 8, 9, 10, 11, 12])) =
     None
   \<and> sess_global_step (snd (train example_graph evaluating_args
        (example_model [1, 2, 3, 4, 5, 6, 7, 8, 9, 10, 11, 12]))) = 6
   \<and> length (postfix (snd (train example_graph evaluating_args
        (example_model [1, 2, 3, 4, 5, 6, 7, 8, 9, 10, 11, 12])))) = 6
   \<and> sint (sess_global_step (snd (train example_graph evaluating_args
        (example_model [1, 2, 3, 4, 5, 6, 7, 8, 9, 10, 11, 12])))) = 6
   \<and> sess_global_step (snd (projr (run_step example_graph evaluating_args 1
        (example_model [1, 2, 3, 4, 5, 6, 7, 8, 9, 10, 11, 12])))) = 1"
proof -
  let ?a = evaluating_args
  let ?s = "example_model [1, 2, 3, 4, 5, 6, 7, 8, 9, 10, 11, 12]"
  have args: "check_train_args ?a = None \<and>
        \<not> (record_summaries ?a \<and> (summaries_dir ?a = None \<or> summaries_name ?a = None)) \<and>
        0 \<le> training_loss_display_averaging ?a \<and> eval_frequency ?a \<noteq> 0 \<and>
        \<not> save_during_training ?a \<and>
        (0 < steps_per_epoch ?a \<or> training_loss ?s \<noteq> None) \<and>
        enough_batches (nat (epochs ?a)) ?a ?s"
    by (simp add: check_train_args_def valid_metrics_def evaluating_args_def example_defs
        enough_batches_def batches_per_epoch_def)
  have n: "nat (epochs ?a) * nat (steps_per_epoch ?a) = 6"
    and s0: "sess_global_step ?s = 0" and p0: "postfix ?s = []"
    by (simp_all add: evaluating_args_def example_defs)
  have run: "run_step example_graph ?a 1 ?s =
      Inr (Fin 1, snd (projr (run_step example_graph ?a 1 ?s)))"
    by (simp add: run_step_def next_batch_def evaluating_args_def example_defs)
  note inst = train_runs_all_steps [of example_graph ?a ?s 1 "Fin 1"
      "snd (projr (run_step example_graph ?a 1 ?s))"]
  have ret: "fst (train example_graph ?a ?s) = None"
    using inst args by blast
  show ?thesis
    using inst ret run by (simp add: n s0 p0)
qed

text \<open>
  C8. The claim fails when the model is saved during training with \<^verbatim>\<open>save_best_only\<close> and
  the monitored loss is not among the tracked metrics. When the training loss is no new
  best after an epoch that may save, the first test of the decision fails and the other
  branch looks \<^verbatim>\<open>'loss'\<close> up in \<^verbatim>\<open>self.metric_names\<close>, where it is not: \<^verbatim>\<open>list.index\<close>
  raises \<^verbatim>\<open>ValueError\<close> and the loop over the epochs is left. In the run below three
  epochs of one step are asked for and the losses are 1, 2 and 3. The model is saved after
  the first epoch; after the second \<^verbatim>\<open>train\<close> ends in \<^verbatim>\<open>ValueError\<close> with two steps
  run, the step counter at 2 instead of 3, and the third batch still in the generator.
\<close>

theorem train_stops_when_loss_does_not_improve:
  "fst (train example_graph saving_args (example_model [1, 2, 3])) =
     Some (ValueError ''is not in list'')
   \<and> sess_global_step (snd (train example_graph saving_args (example_model [1, 2, 3]))) = 2
   \<and> map fst (postfix (snd (train example_graph saving_args (example_model [1, 2, 3])))) =
     [Fin 1, Fin 2]
   \<and> generators (snd (train example_graph saving_args (example_model [1, 2, 3]))) 0 = [3]
   \<and> stdout (snd (train example_graph saving_args (example_model [1, 2, 3]))) =
     [NewBest ''loss'']
   \<and> map sm_globalstep
       (saved_models (snd (train example_graph saving_args (example_model [1, 2, 3])))) =
     [Some (Some 1)]
   \<and> nat (epochs saving_args) * nat (steps_per_epoch saving_args) = 3"
  by (simp add: train_defs saving_args_def example_defs eval_nat_numeral)

end
